theory Spec2Isabelle
  imports Complex_Main
begin

section \<open>The interactive entity editor: routes and buildings on a map\<close>

text \<open>
  The two React components are embedded as state transformers. Every \<open>useState\<close> cell is a
  field of a record; the things the handlers reach outside the component (the browser's
  local storage, the map surface, \<open>alert\<close>, the network) are further fields or explicit
  inputs. A handler that does not wait runs to completion on the state of the latest
  render: it reads the record it is given and returns the record after all its \<open>set...\<close>
  calls. The handler that adds a building waits for a request while other events are
  handled; it takes the state it was started in and the state it completes in.
\<close>

subsection \<open>JavaScript values\<close>

text \<open>
  A JavaScript number is modelled by a real number: the finite doubles are a subset of
  the reals, and every arithmetic operation of the source is followed by the rounding
  \<open>fl\<close> of the runtime (the identity for exact arithmetic, \<open>round_double\<close> below for
  IEEE 754 binary64). \<open>NaN\<close> and the infinities are left out; where the source can
  produce \<open>NaN\<close> the model has an \<open>option\<close>. The id of a building is such a number
  too, since the source computes it by an addition. The id of a route is a clock reading
  that is only stored and compared, and is an \<open>int\<close>.
\<close>

type_synonym point = "real \<times> real"

record route =
  id_r :: int
  name_r :: string
  type_r :: string
  coordinates_r :: "string list"
  createdAt_r :: string

text \<open>The body of the \<open>POST\<close> request of the remote variant: a route without an id.\<close>

record route_data =
  name_d :: string
  type_d :: string
  coordinates_d :: "string list"
  createdAt_d :: string

record building =
  id_b :: real
  location_b :: point
  coordinates_b :: "point list list"
  width_b :: real
  height_b :: real
  color_b :: string
  rotation_b :: real
  type_b :: string

text \<open>
  What \<open>JSON.parse\<close> returns on a text that is JSON: an array of records, a falsy value
  (\<open>null\<close>, \<open>false\<close>, \<open>0\<close>, the empty string) or any other value, which has neither
  \<open>forEach\<close> nor \<open>map\<close>. A text that is not JSON makes \<open>JSON.parse\<close> throw: the
  parser below returns \<open>None\<close> there.
\<close>

datatype 'a parsed = Parsed_array "'a list" | Parsed_falsy | Parsed_other

text \<open>
  The built-in functions of the runtime that the components call: the rounding of its
  arithmetic, \<open>Math.cos\<close> and \<open>Math.sin\<close>, the conversions between numbers and strings
  (\<open>Number_of\<close> is \<open>None\<close> for \<open>NaN\<close>) and \<open>JSON.stringify\<close> and \<open>JSON.parse\<close> on the
  two catalogs. They are parameters of the model: a theorem that needs something of them
  says so in its hypotheses.
\<close>

record js =
  fl :: "real \<Rightarrow> real"
  Math_cos :: "real \<Rightarrow> real"
  Math_sin :: "real \<Rightarrow> real"
  Number_toString :: "real \<Rightarrow> string"
  Number_of :: "string \<Rightarrow> real option"
  stringify_routes :: "route list \<Rightarrow> string"
  parse_routes :: "string \<Rightarrow> route parsed option"
  stringify_buildings :: "building list \<Rightarrow> string"
  parse_buildings :: "string \<Rightarrow> building parsed option"

datatype exn = SyntaxError | TypeError | Rejected

subsection \<open>The map surface\<close>

text \<open>
  The renderer keeps a table of sources and a table of layers, both keyed by strings
  that the components build from the entity's id (\<open>route-7\<close>, \<open>building-7\<close>,
  \<open>building-7-label\<close>) or that are fixed (\<open>temp-route-line\<close>). The keys are a datatype
  here, which is the same as the strings since the templates are injective.
\<close>

datatype layer_id = Route_layer int | Temp_route_line | Building_layer real | Building_label real

datatype geometry =
    LineString "real option list list"
  | Polygon "point list list" real
  | Label_point "point option" real string

datatype paint = Line string real | Fill_extrusion string real | Symbol

record surface =
  sources :: "layer_id \<rightharpoonup> geometry"
  layers :: "layer_id \<rightharpoonup> paint"

definition addSource :: "layer_id \<Rightarrow> geometry \<Rightarrow> surface \<Rightarrow> surface" where
  "addSource i g m = m\<lparr>sources := (sources m)(i \<mapsto> g)\<rparr>"

definition addLayer :: "layer_id \<Rightarrow> paint \<Rightarrow> surface \<Rightarrow> surface" where
  "addLayer i p m = m\<lparr>layers := (layers m)(i \<mapsto> p)\<rparr>"

definition removeSource :: "layer_id \<Rightarrow> surface \<Rightarrow> surface" where
  "removeSource i m = m\<lparr>sources := (sources m)(i := None)\<rparr>"

definition removeLayer :: "layer_id \<Rightarrow> surface \<Rightarrow> surface" where
  "removeLayer i m = m\<lparr>layers := (layers m)(i := None)\<rparr>"

definition empty_surface :: surface where
  "empty_surface = \<lparr>sources = Map.empty, layers = Map.empty\<rparr>"

text \<open>\<open>if (map.getLayer(id)) map.removeLayer(id); if (map.getSource(id)) map.removeSource(id);\<close>\<close>

definition clear_id :: "layer_id \<Rightarrow> surface \<Rightarrow> surface" where
  "clear_id i m =
     (let m1 = (if layers m i \<noteq> None then removeLayer i m else m)
      in if sources m1 i \<noteq> None then removeSource i m1 else m1)"

subsection \<open>The route editor\<close>

text \<open>
  The state cells shared by both variants of \<open>RouteManager\<close>, with the map surface and
  the messages shown by \<open>alert\<close>. The variant backed by local storage adds the text
  stored under the key \<open>routes\<close>; the variant backed by the remote service adds the
  request bodies it has sent.
\<close>

record route_ui =
  routes :: "route list"
  routeName :: string
  routeType :: string
  clickedPoints :: "point list"
  isDrawing :: bool
  isStyleLoaded :: bool
  error :: string
  map_surface :: surface
  alerts :: "string list"

record local_editor = route_ui +
  storage :: "string option"

record remote_editor = route_ui +
  posted :: "route_data list"

definition roadTypes :: "(string \<times> string \<times> string \<times> real) list" where
  "roadTypes = [(''major'', ''Major Road'', ''#000000'', 5),
                (''minor'', ''Minor Road'', ''#808080'', 3)]"

text \<open>The click handler registered on the map: ignored unless drawing.\<close>

definition handleClick :: "point \<Rightarrow> 'a route_ui_scheme \<Rightarrow> 'a route_ui_scheme" where
  "handleClick p w =
     (if \<not> isDrawing w then w else w\<lparr>clickedPoints := clickedPoints w @ [p]\<rparr>)"

text \<open>
  The button that reads Start Drawing or Cancel Drawing:
  \<open>setIsDrawing(!isDrawing); if (!isDrawing) setClickedPoints([]);\<close>
\<close>

definition toggleDrawing :: "'a route_ui_scheme \<Rightarrow> 'a route_ui_scheme" where
  "toggleDrawing w =
     (let w1 = w\<lparr>isDrawing := \<not> isDrawing w\<rparr>
      in if \<not> isDrawing w then w1\<lparr>clickedPoints := []\<rparr> else w1)"

text \<open>\<open>str.split(',')\<close>: the pieces between the commas; never an empty list.\<close>

fun split_comma :: "string \<Rightarrow> string list" where
  "split_comma [] = [[]]"
| "split_comma (c # cs) =
     (if c = CHR '','' then [] # split_comma cs
      else (case split_comma cs of
              [] \<Rightarrow> [[c]]
            | piece # pieces \<Rightarrow> (c # piece) # pieces))"

definition drawRouteOnMap :: "js \<Rightarrow> route \<Rightarrow> surface \<Rightarrow> surface" where
  "drawRouteOnMap rt r m =
     (let sourceId = Route_layer (id_r r);
          coords = map (\<lambda>coordStr. map (Number_of rt) (split_comma coordStr)) (coordinates_r r);
          roadType = find (\<lambda>(v, l, c, wd). v = type_r r) roadTypes;
          m1 = (if sources m sourceId \<noteq> None
                then removeSource sourceId (removeLayer sourceId m) else m);
          m2 = addSource sourceId (LineString coords) m1
      in addLayer sourceId
           (case roadType of
              None \<Rightarrow> Line ''#000000'' 5
            | Some (v, l, c, wd) \<Rightarrow> Line (if c = [] then ''#000000'' else c)
                                        (if wd = 0 then 5 else wd)) m2)"

text \<open>The template literal \<open>`${coord[0]},${coord[1]}`\<close>.\<close>

definition format_point :: "js \<Rightarrow> point \<Rightarrow> string" where
  "format_point rt p = Number_toString rt (fst p) @ '','' @ Number_toString rt (snd p)"

subsubsection \<open>The variant backed by local storage\<close>

text \<open>
  The body of the \<open>try\<close> block of \<open>loadRoutes\<close>, with the exception it can end on.
  On a value that is not an array \<open>setRoutes(parsed)\<close> has run when \<open>forEach\<close> is
  looked up and throws; the \<open>catch\<close> then overwrites the catalog, so the state at the
  exception is not kept.
\<close>

definition loadRoutes_try :: "js \<Rightarrow> string \<Rightarrow> local_editor \<Rightarrow> exn + local_editor" where
  "loadRoutes_try rt saved w =
     (case parse_routes rt saved of
        None \<Rightarrow> Inl SyntaxError
      | Some (Parsed_array rs) \<Rightarrow>
          Inr (w\<lparr>routes := rs,
                 map_surface := fold (drawRouteOnMap rt) rs (map_surface w)\<rparr>)
      | Some _ \<Rightarrow> Inl TypeError)"

definition loadRoutes :: "js \<Rightarrow> local_editor \<Rightarrow> exn + local_editor" where
  "loadRoutes rt w =
     (case storage w of
        None \<Rightarrow> Inr (w\<lparr>routes := []\<rparr>)
      | Some saved \<Rightarrow>
          if saved = [] then Inr (w\<lparr>routes := []\<rparr>)
          else (case loadRoutes_try rt saved w of
                  Inl e \<Rightarrow> Inr (w\<lparr>routes := []\<rparr>)
                | Inr w' \<Rightarrow> Inr w'))"

definition saveRoutesToStorage :: "js \<Rightarrow> route list \<Rightarrow> local_editor \<Rightarrow> local_editor" where
  "saveRoutesToStorage rt updatedRoutes w =
     w\<lparr>storage := Some (stringify_routes rt updatedRoutes), routes := updatedRoutes\<rparr>"

text \<open>
  \<open>handleSaveRoute\<close>; \<open>now\<close> is the reading of \<open>Date.now()\<close> and \<open>stamp\<close> the text
  of \<open>new Date().toISOString()\<close>.
\<close>

definition handleSaveRoute :: "js \<Rightarrow> int \<Rightarrow> string \<Rightarrow> local_editor \<Rightarrow> local_editor" where
  "handleSaveRoute rt now stamp w =
     (if routeName w = [] \<or> length (clickedPoints w) < 2
      then w\<lparr>error := ''Please provide a route name and at least 2 points''\<rparr>
      else
        let newRoute = \<lparr>id_r = now, name_r = routeName w, type_r = routeType w,
                        coordinates_r = map (format_point rt) (clickedPoints w),
                        createdAt_r = stamp\<rparr>;
            updatedRoutes = routes w @ [newRoute];
            w1 = saveRoutesToStorage rt updatedRoutes w;
            w2 = w1\<lparr>map_surface := clear_id Temp_route_line
                                      (drawRouteOnMap rt newRoute (map_surface w1))\<rparr>
        in w2\<lparr>routeName := [], clickedPoints := [], isDrawing := False, error := [],
               alerts := alerts w2 @ [''Route saved successfully!'']\<rparr>)"

definition handleDeleteRoute :: "js \<Rightarrow> int \<Rightarrow> local_editor \<Rightarrow> local_editor" where
  "handleDeleteRoute rt i w =
     (let updatedRoutes = filter (\<lambda>r. id_r r \<noteq> i) (routes w);
          w1 = saveRoutesToStorage rt updatedRoutes w
      in w1\<lparr>map_surface := clear_id (Route_layer i) (map_surface w1)\<rparr>)"

subsubsection \<open>The variant backed by the remote service\<close>

text \<open>
  A request either succeeds with the response data or fails; a failure carries
  \<open>error.response?.data?.message\<close> when the service sent one.
\<close>

datatype 'a http = Http_ok 'a | Http_failed "string option"

definition loadRoutes_remote :: "route list http \<Rightarrow> remote_editor \<Rightarrow> remote_editor" where
  "loadRoutes_remote got w =
     (case got of
        Http_ok rs \<Rightarrow> w\<lparr>routes := rs\<rparr>
      | Http_failed msg \<Rightarrow> w\<lparr>error := ''Failed to load routes''\<rparr>)"

text \<open>
  \<open>post\<close> is the answer of the service to the request body it is sent and \<open>got\<close> the
  answer to the \<open>GET\<close> that reloads the routes afterwards.
\<close>

definition handleSaveRoute_remote ::
  "js \<Rightarrow> string \<Rightarrow> (route_data \<Rightarrow> unit http) \<Rightarrow> route list http \<Rightarrow> remote_editor \<Rightarrow> remote_editor"
where
  "handleSaveRoute_remote rt stamp post got w =
     (if routeName w = [] \<or> length (clickedPoints w) < 2
      then w\<lparr>error := ''Please provide a route name and at least 2 points''\<rparr>
      else
        let routeData = \<lparr>name_d = routeName w, type_d = routeType w,
                         coordinates_d = map (format_point rt) (clickedPoints w),
                         createdAt_d = stamp\<rparr>;
            w1 = w\<lparr>posted := posted w @ [routeData]\<rparr>
        in (case post routeData of
              Http_failed msg \<Rightarrow>
                w1\<lparr>error := (case msg of
                                None \<Rightarrow> ''Failed to save route. Please try again.''
                              | Some m \<Rightarrow> if m = [] then ''Failed to save route. Please try again.''
                                          else m)\<rparr>
            | Http_ok u \<Rightarrow>
                let w2 = w1\<lparr>map_surface := clear_id Temp_route_line (map_surface w1)\<rparr>;
                    w3 = w2\<lparr>routeName := [], clickedPoints := [], isDrawing := False,
                            error := [], alerts := alerts w2 @ [''Route saved successfully!'']\<rparr>
                in loadRoutes_remote got w3))"

definition handleDeleteRoute_remote ::
  "int \<Rightarrow> unit http \<Rightarrow> route list http \<Rightarrow> remote_editor \<Rightarrow> remote_editor"
where
  "handleDeleteRoute_remote i deleted got w =
     (case deleted of
        Http_failed msg \<Rightarrow> w\<lparr>error := ''Failed to delete route''\<rparr>
      | Http_ok u \<Rightarrow>
          let w1 = w\<lparr>map_surface := clear_id (Route_layer i) (map_surface w)\<rparr>
          in (loadRoutes_remote got w1)\<lparr>error := []\<rparr>)"

subsection \<open>The building editor\<close>

text \<open>The arithmetic operators of the source, each rounding its exact result.\<close>

definition js_add :: "js \<Rightarrow> real \<Rightarrow> real \<Rightarrow> real" where
  "js_add rt a b = fl rt (a + b)"

definition js_sub :: "js \<Rightarrow> real \<Rightarrow> real \<Rightarrow> real" where
  "js_sub rt a b = fl rt (a - b)"

definition js_mul :: "js \<Rightarrow> real \<Rightarrow> real \<Rightarrow> real" where
  "js_mul rt a b = fl rt (a * b)"

text \<open>Division; the source divides by the constants 2, 180 and 111111 and by a length.\<close>

definition js_div :: "js \<Rightarrow> real \<Rightarrow> real \<Rightarrow> real" where
  "js_div rt a b = fl rt (a / b)"

definition Math_PI :: "js \<Rightarrow> real" where
  "Math_PI rt = fl rt pi"

definition getRotatedCoordinates :: "js \<Rightarrow> point \<Rightarrow> real \<Rightarrow> real \<Rightarrow> point list list" where
  "getRotatedCoordinates rt center size_deg rotation =
     (let rad = js_div rt (js_mul rt rotation (Math_PI rt)) 180;
          points = [(js_div rt (- size_deg) 2, js_div rt (- size_deg) 2),
                    (js_div rt size_deg 2, js_div rt (- size_deg) 2),
                    (js_div rt size_deg 2, js_div rt size_deg 2),
                    (js_div rt (- size_deg) 2, js_div rt size_deg 2)]
      in [map (\<lambda>(x, y).
                 (js_sub rt (js_add rt (fst center) (js_mul rt x (Math_cos rt rad)))
                            (js_mul rt y (Math_sin rt rad)),
                  js_add rt (js_add rt (snd center) (js_mul rt x (Math_sin rt rad)))
                            (js_mul rt y (Math_cos rt rad))))
              points])"

text \<open>
  The label position of \<open>displayBuilding\<close> (and the camera target of
  \<open>handleSelectBuilding\<close>):
  \<open>ring.reduce((acc, curr) => [acc[0] + curr[0], acc[1] + curr[1]], [0, 0])
       .map(coord => coord / ring.length)\<close>.
  On an empty ring both quotients are \<open>0 / 0\<close>, which is \<open>NaN\<close>.
\<close>

definition ring_center :: "js \<Rightarrow> point list \<Rightarrow> point option" where
  "ring_center rt ring =
     (let acc = foldl (\<lambda>acc curr. (js_add rt (fst acc) (fst curr), js_add rt (snd acc) (snd curr)))
                      (0, 0) ring
      in if ring = [] then None
         else Some (js_div rt (fst acc) (of_nat (length ring)),
                    js_div rt (snd acc) (of_nat (length ring))))"

record building_editor =
  buildingWidth :: real
  buildingHeight :: real
  buildingColor :: string
  buildingRotation :: real
  buildingType :: string
  buildings :: "building list"
  selectedBuilding :: "building option"
  map_b :: "surface option"
  clickedLocation :: "point option"
  storage_b :: "string option"
  alerts_b :: "string list"

definition alert :: "string \<Rightarrow> building_editor \<Rightarrow> building_editor" where
  "alert msg w = w\<lparr>alerts_b := alerts_b w @ [msg]\<rparr>"

text \<open>
  \<open>displayBuilding\<close> returns the map and the exception that ended it, if any:
  \<open>building.coordinates[0]\<close> is \<open>undefined\<close> when the building has no ring, and
  \<open>reduce\<close> of it is a \<open>TypeError\<close>, thrown after the extrusion has been added.
\<close>

definition displayBuilding :: "js \<Rightarrow> building \<Rightarrow> surface option \<Rightarrow> surface option \<times> exn option" where
  "displayBuilding rt b mo =
     (case mo of
        None \<Rightarrow> (None, None)
      | Some m \<Rightarrow>
          let buildingId = Building_layer (id_b b);
              labelId = Building_label (id_b b);
              m1 = clear_id labelId (clear_id buildingId m);
              m2 = addSource buildingId (Polygon (coordinates_b b) (height_b b)) m1;
              m3 = addLayer buildingId (Fill_extrusion (color_b b) (height_b b)) m2
          in (case coordinates_b b of
                [] \<Rightarrow> (Some m3, Some TypeError)
              | ring # rest \<Rightarrow>
                  let center = ring_center rt ring;
                      m4 = addSource labelId (Label_point center (id_b b) (type_b b)) m3
                  in (Some (addLayer labelId Symbol m4), None)))"

text \<open>
  The outcome of the air-quality request of \<open>handleAddBuilding\<close>: \<open>fetch\<close> rejects (no
  network), or answers with a status that is not \<open>ok\<close>, or \<open>response.json()\<close> rejects,
  or the body is read and \<open>data.data?.aqi\<close> is \<open>undefined\<close> (\<open>Aqi_data None\<close>), a number,
  or a value that is not \<open>undefined\<close> and that the comparison \<open>aqi > maxAqiAllowed\<close>
  converts to \<open>NaN\<close>, such as the string \<open>"-"\<close> the service sends for a station
  without data. A value that converts to a number (\<open>null\<close> to 0, \<open>"80"\<close> to 80) behaves
  as that number.
\<close>

datatype aqi_lookup =
    Fetch_rejected
  | Status_not_ok
  | Body_rejected
  | Aqi_data "real option"
  | Aqi_not_a_number

definition buildingAqiLimits :: "(string \<times> real) list" where
  "buildingAqiLimits =
     [(''Residential Building'', 200),
      (''Market/Shopping Area'', 150),
      (''Office Building'', 100),
      (''Factory/Warehouse'', 300),
      (''Power Plant'', 400),
      (''Transport Hub'', 150),
      (''Educational Institution'', 100),
      (''Government Office'', 150),
      (''Park'', 50),
      (''Cinema/Entertainment'', 100),
      (''Gym/Sports Arena'', 100),
      (''Healthcare Facility'', 50)]"

text \<open>
  \<open>buildingAqiLimits[buildingType] || 200\<close> for a type that is a key of the table or of
  no object at all.
\<close>

definition maxAqiAllowed :: "string \<Rightarrow> real" where
  "maxAqiAllowed ty =
     (case map_of buildingAqiLimits ty of
        None \<Rightarrow> 200
      | Some limit \<Rightarrow> if limit = 0 then 200 else limit)"

text \<open>
  The table is an object literal, so indexing it with the name of a property of
  \<open>Object.prototype\<close> gives that property: a function or an object, which is truthy and
  which the comparison converts to \<open>NaN\<close>. For such a type no index is above the
  ceiling. The select box offers none of these names, but a stored building can carry
  one, and selecting it copies its type into the form.
\<close>

definition Object_prototype_keys :: "string list" where
  "Object_prototype_keys =
     [''constructor'', ''__defineGetter__'', ''__defineSetter__'', ''hasOwnProperty'',
      ''__lookupGetter__'', ''__lookupSetter__'', ''isPrototypeOf'', ''propertyIsEnumerable'',
      ''toString'', ''valueOf'', ''__proto__'', ''toLocaleString'']"

text \<open>\<open>aqi > maxAqiAllowed\<close> on a numeric index.\<close>

definition above_ceiling :: "real \<Rightarrow> string \<Rightarrow> bool" where
  "above_ceiling aqi ty \<longleftrightarrow> ty \<notin> set Object_prototype_keys \<and> aqi > maxAqiAllowed ty"

text \<open>\<open>Math.max(...xs)\<close>; on no arguments it is \<open>-Infinity\<close>, here \<open>None\<close>.\<close>

fun Math_max :: "real list \<Rightarrow> real option" where
  "Math_max [] = None"
| "Math_max (x # xs) = Some (fold max xs x)"

text \<open>
  \<open>buildings.length > 0 ? Math.max(...buildings.map(b => b.id)) + 1 : 1\<close>. The maximum
  of a list that is not empty is a number, so the last case is never reached.
\<close>

definition newId :: "js \<Rightarrow> building list \<Rightarrow> real" where
  "newId rt bs =
     (if length bs > 0
      then (case Math_max (map id_b bs) of Some m \<Rightarrow> js_add rt m 1 | None \<Rightarrow> 1)
      else 1)"

text \<open>
  \<open>handleAddBuilding\<close> is asynchronous: it waits for the air-quality request, and other
  events are handled meanwhile. What the handler reads, it reads from the render in
  which the button was clicked (its closure, \<open>snap\<close>): the location, the form values and
  also the catalog from which the new id is computed, after the wait. What it writes, it
  writes to the state at the time the request completes (\<open>w\<close>): \<open>setBuildings(prev => ...)\<close>
  appends to the catalog of that time. The two lines before \<open>fetch\<close> run at the click,
  when the state is the closure's. The result is paired with the exception that ends the
  handler when nothing catches one: there is no \<open>try\<close>, so a rejected \<open>fetch\<close> or
  \<open>response.json()\<close> rejects the handler's own promise before any state is written and
  before any \<open>alert\<close>.
\<close>

definition handleAddBuilding_from ::
  "js \<Rightarrow> aqi_lookup \<Rightarrow> building_editor \<Rightarrow> building_editor \<Rightarrow> building_editor \<times> exn option"
where
  "handleAddBuilding_from rt lookup snap w =
     (case clickedLocation snap of
        None \<Rightarrow> (alert ''Please select a location and building type'' w, None)
      | Some loc \<Rightarrow>
          if buildingType snap = []
          then (alert ''Please select a location and building type'' w, None)
          else
            let proceed =
                  (let size_deg = js_div rt (buildingWidth snap) 111111;
                       coordinates =
                         getRotatedCoordinates rt loc size_deg (buildingRotation snap);
                       newBuilding = \<lparr>id_b = newId rt (buildings snap), location_b = loc,
                                      coordinates_b = coordinates,
                                      width_b = buildingWidth snap,
                                      height_b = buildingHeight snap,
                                      color_b = buildingColor snap,
                                      rotation_b = buildingRotation snap,
                                      type_b = buildingType snap\<rparr>;
                       updated = buildings w @ [newBuilding];
                       w1 = w\<lparr>buildings := updated,
                              storage_b := Some (stringify_buildings rt updated),
                              buildingType := []\<rparr>;
                       (m, e) = (if map_b snap = None then (map_b w1, None)
                                 else displayBuilding rt newBuilding (map_b w1))
                   in (w1\<lparr>map_b := m\<rparr>, e))
            in (case lookup of
                  Fetch_rejected \<Rightarrow> (w, Some Rejected)
                | Status_not_ok \<Rightarrow> (alert ''Failed to fetch AQI data'' w, None)
                | Body_rejected \<Rightarrow> (w, Some Rejected)
                | Aqi_data None \<Rightarrow> (alert ''Invalid AQI data. Please try again.'' w, None)
                | Aqi_data (Some aqi) \<Rightarrow>
                    if above_ceiling aqi (buildingType snap)
                    then (alert (''AQI too high for a '' @ buildingType snap @ ''. AQI: ''
                                   @ Number_toString rt aqi) w, None)
                    else proceed
                | Aqi_not_a_number \<Rightarrow> proceed))"

text \<open>The handler when no other event is handled while its request is in flight.\<close>

definition handleAddBuilding :: "js \<Rightarrow> aqi_lookup \<Rightarrow> building_editor \<Rightarrow> building_editor \<times> exn option" where
  "handleAddBuilding rt lookup w = handleAddBuilding_from rt lookup w w"

text \<open>
  \<open>JSON.parse(localStorage.getItem('buildings')) || []\<close>, as far as the \<open>map\<close> or
  \<open>filter\<close> called on it needs: \<open>getItem\<close> gives \<open>null\<close> for a missing key, which
  parses to \<open>null\<close>.
\<close>

definition storedBuildings :: "js \<Rightarrow> string option \<Rightarrow> exn + building list" where
  "storedBuildings rt st =
     (case st of
        None \<Rightarrow> Inr []
      | Some txt \<Rightarrow>
          (case parse_buildings rt txt of
             None \<Rightarrow> Inl SyntaxError
           | Some (Parsed_array bs) \<Rightarrow> Inr bs
           | Some Parsed_falsy \<Rightarrow> Inr []
           | Some Parsed_other \<Rightarrow> Inl TypeError))"

text \<open>
  \<open>handleDeleteBuilding\<close>: the whole body is in a \<open>try\<close>, and \<open>map.getLayer\<close> on a
  missing map is the first thing that can throw.
\<close>

definition handleDeleteBuilding :: "js \<Rightarrow> real \<Rightarrow> building_editor \<Rightarrow> building_editor" where
  "handleDeleteBuilding rt buildingId w =
     (case map_b w of
        None \<Rightarrow> alert ''Failed to delete building. Please try again.'' w
      | Some m \<Rightarrow>
          let m1 = clear_id (Building_label buildingId) (clear_id (Building_layer buildingId) m);
              w1 = w\<lparr>map_b := Some m1,
                     buildings := filter (\<lambda>b. id_b b \<noteq> buildingId) (buildings w),
                     selectedBuilding := None\<rparr>
          in (case storedBuildings rt (storage_b w1) of
                Inl e \<Rightarrow> alert ''Failed to delete building. Please try again.'' w1
              | Inr stored \<Rightarrow>
                  w1\<lparr>storage_b := Some (stringify_buildings rt
                                           (filter (\<lambda>b. id_b b \<noteq> buildingId) stored))\<rparr>))"

text \<open>
  \<open>handleUpdateBuilding\<close>: the new record is computed before the \<open>try\<close>; inside it
  the catalog is written first, then the map, then the store, and the selection is
  cleared last.
\<close>

definition updatedBuilding :: "js \<Rightarrow> building \<Rightarrow> building_editor \<Rightarrow> building" where
  "updatedBuilding rt sb w =
     (let size_deg = js_div rt (buildingWidth w) 111111;
          coordinates = getRotatedCoordinates rt (location_b sb) size_deg (buildingRotation w)
      in sb\<lparr>width_b := buildingWidth w, height_b := buildingHeight w,
             color_b := buildingColor w, rotation_b := buildingRotation w,
             type_b := buildingType w, coordinates_b := coordinates\<rparr>)"

definition handleUpdateBuilding :: "js \<Rightarrow> building_editor \<Rightarrow> building_editor" where
  "handleUpdateBuilding rt w =
     (case selectedBuilding w of
        None \<Rightarrow> w
      | Some sb \<Rightarrow>
          let ub = updatedBuilding rt sb w;
              w1 = w\<lparr>buildings := map (\<lambda>b. if id_b b = id_b sb then ub else b) (buildings w)\<rparr>;
              (m, e) = displayBuilding rt ub (map_b w1);
              w2 = w1\<lparr>map_b := m\<rparr>
          in (case e of
                Some x \<Rightarrow> alert ''Failed to update building. Please try again.'' w2
              | None \<Rightarrow>
                  (case storedBuildings rt (storage_b w2) of
                     Inl x \<Rightarrow> alert ''Failed to update building. Please try again.'' w2
                   | Inr stored \<Rightarrow>
                       w2\<lparr>storage_b := Some (stringify_buildings rt
                               (map (\<lambda>b. if id_b b = id_b sb then ub else b) stored)),
                          selectedBuilding := None,
                          buildingType := []\<rparr>)))"

text \<open>
  \<open>handleSelectBuilding\<close>; \<open>building.rotation || 0\<close> is the rotation itself, and the
  camera of \<open>map.flyTo\<close> is not part of the model, but the \<open>TypeError\<close> of computing
  its target on a building with no ring is.
\<close>

definition handleSelectBuilding :: "building \<Rightarrow> building_editor \<Rightarrow> building_editor \<times> exn option" where
  "handleSelectBuilding b w =
     (w\<lparr>selectedBuilding := Some b, buildingWidth := width_b b, buildingHeight := height_b b,
        buildingColor := color_b b, buildingRotation := rotation_b b,
        buildingType := type_b b\<rparr>,
      if map_b w \<noteq> None \<and> coordinates_b b = [] then Some TypeError else None)"

text \<open>
  A session of the building editor is the state of the latest render together with the
  closures of the adds whose air-quality request is still in flight. Its events: a click
  on Add Building, which starts a request if the form is filled in; the answer to the
  k-th request in flight; the two other buttons (Delete acts on the selected building);
  a click on an entry of the list; the form inputs; and a new clicked location from the
  parent component. Update, delete and select do not wait for anything and run to
  completion on the state of the latest render.
\<close>

type_synonym session = "building_editor \<times> building_editor list"

datatype building_event =
    Add_click
  | Add_response nat aqi_lookup
  | Update
  | Delete
  | Select nat
  | Set_width real
  | Set_height real
  | Set_rotation real
  | Set_color string
  | Set_type string
  | Set_location "point option"

fun step :: "js \<Rightarrow> building_event \<Rightarrow> session \<Rightarrow> session" where
  "step rt Add_click (w, waiting) =
     (if clickedLocation w = None \<or> buildingType w = []
      then (alert ''Please select a location and building type'' w, waiting)
      else (w, waiting @ [w]))"
| "step rt (Add_response k lookup) (w, waiting) =
     (if k < length waiting
      then (fst (handleAddBuilding_from rt lookup (waiting ! k) w),
            take k waiting @ drop (Suc k) waiting)
      else (w, waiting))"
| "step rt Update (w, waiting) = (handleUpdateBuilding rt w, waiting)"
| "step rt Delete (w, waiting) =
     (case selectedBuilding w of
        None \<Rightarrow> (w, waiting)
      | Some sb \<Rightarrow> (handleDeleteBuilding rt (id_b sb) w, waiting))"
| "step rt (Select i) (w, waiting) =
     (if i < length (buildings w)
      then (fst (handleSelectBuilding (buildings w ! i) w), waiting)
      else (w, waiting))"
| "step rt (Set_width v) (w, waiting) = (w\<lparr>buildingWidth := v\<rparr>, waiting)"
| "step rt (Set_height v) (w, waiting) = (w\<lparr>buildingHeight := v\<rparr>, waiting)"
| "step rt (Set_rotation v) (w, waiting) = (w\<lparr>buildingRotation := v\<rparr>, waiting)"
| "step rt (Set_color c) (w, waiting) = (w\<lparr>buildingColor := c\<rparr>, waiting)"
| "step rt (Set_type t) (w, waiting) = (w\<lparr>buildingType := t\<rparr>, waiting)"
| "step rt (Set_location l) (w, waiting) = (w\<lparr>clickedLocation := l\<rparr>, waiting)"

definition run :: "js \<Rightarrow> building_event list \<Rightarrow> session \<Rightarrow> session" where
  "run rt evs s = fold (step rt) evs s"

text \<open>The component as first rendered: the defaults of its \<open>useState\<close> cells.\<close>

definition initial_building_editor ::
  "surface option \<Rightarrow> point option \<Rightarrow> string option \<Rightarrow> building_editor" where
  "initial_building_editor m loc st =
     \<lparr>buildingWidth = 30, buildingHeight = 50, buildingColor = ''#ff0000'',
      buildingRotation = 0, buildingType = [], buildings = [], selectedBuilding = None,
      map_b = m, clickedLocation = loc, storage_b = st, alerts_b = []\<rparr>"

text \<open>
  The effect run when the component mounts: \<open>if (stored) setBuildings(JSON.parse(stored))\<close>.
  A stored value that is not an array becomes the catalog all the same, and the next
  render throws on \<open>buildings.map\<close>.
\<close>

definition mountBuildings :: "js \<Rightarrow> building_editor \<Rightarrow> building_editor \<times> exn option" where
  "mountBuildings rt w =
     (case storage_b w of
        None \<Rightarrow> (w, None)
      | Some txt \<Rightarrow>
          if txt = [] then (w, None)
          else (case parse_buildings rt txt of
                  None \<Rightarrow> (w, Some SyntaxError)
                | Some (Parsed_array bs) \<Rightarrow> (w\<lparr>buildings := bs\<rparr>, None)
                | Some x \<Rightarrow> (w, Some TypeError)))"

subsection \<open>IEEE 754 binary64 arithmetic\<close>

text \<open>
  The numbers of the JavaScript runtime are binary64 doubles, and each operation returns
  the double nearest to the exact result, ties going to the even significand. A double is
  an integer of at most 53 bits times a power of two; the unit in the last place of a
  number between \<open>2^a\<close> and \<open>2^(a+1)\<close> is \<open>2^(a-52)\<close>, and no smaller than \<open>2^-1074\<close>, the
  spacing of the subnormal numbers. Overflow to infinity is left out: the coordinates,
  sizes and sums of the editor are far below \<open>2^1024\<close>.
\<close>

definition round_even :: "real \<Rightarrow> int" where
  "round_even y =
     (let f = \<lfloor>y\<rfloor>; d = y - of_int f
      in if d < 1 / 2 then f else if 1 / 2 < d then f + 1 else if even f then f else f + 1)"

definition ulp_exponent :: "real \<Rightarrow> int" where
  "ulp_exponent x = max (\<lfloor>log 2 \<bar>x\<bar>\<rfloor> - 52) (- 1074)"

definition round_double :: "real \<Rightarrow> real" where
  "round_double x =
     (if x = 0 then 0
      else of_int (round_even (x / 2 powr of_int (ulp_exponent x)))
             * 2 powr of_int (ulp_exponent x))"

text \<open>
  What the proofs about rotation 0 need of a rounding: zero is kept, the rounding is odd
  and rounding twice is rounding once. A runtime is like IEEE 754 when its rounding is
  such and its cosine and sine are exact at 0.
\<close>

definition rounding :: "(real \<Rightarrow> real) \<Rightarrow> bool" where
  "rounding f \<longleftrightarrow> f 0 = 0 \<and> (\<forall>x. f (- x) = - f x) \<and> (\<forall>x. f (f x) = f x)"

definition ieee_like :: "js \<Rightarrow> bool" where
  "ieee_like rt \<longleftrightarrow> rounding (fl rt) \<and> Math_cos rt 0 = 1 \<and> Math_sin rt 0 = 0"

text \<open>
  Every integer of magnitude up to \<open>2^53\<close> is a double, so a runtime that rounds to the
  nearest double leaves such an integer as it is. The next integer, \<open>2^53 + 1\<close>, is not a
  double.
\<close>

definition integers_exact :: "js \<Rightarrow> bool" where
  "integers_exact rt \<longleftrightarrow> (\<forall>k::int. \<bar>k\<bar> \<le> 2 ^ 53 \<longrightarrow> fl rt (of_int k) = of_int k)"

text \<open>The label source of a building on the map, if there is a map and a label.\<close>

definition label_of :: "building_editor \<Rightarrow> real \<Rightarrow> geometry option" where
  "label_of w i = (case map_b w of None \<Rightarrow> None | Some m \<Rightarrow> sources m (Building_label i))"

subsection \<open>Runtimes and states to evaluate on\<close>

text \<open>
  The theorems below hold for every runtime. To evaluate the model on concrete inputs a
  runtime with exact arithmetic is fixed here: no rounding, the real cosine and sine,
  numbers printed as the decimal digits of their integer part, and a JSON codec that
  knows the empty array only.
\<close>

fun decimal :: "nat \<Rightarrow> string" where
  "decimal n =
     (if n < 10 then [''0123456789'' ! n]
      else decimal (n div 10) @ [''0123456789'' ! (n mod 10)])"

definition exact_js :: js where
  "exact_js =
     \<lparr>fl = (\<lambda>x. x), Math_cos = cos, Math_sin = sin,
      Number_toString = (\<lambda>x. (if x < 0 then ''-'' else []) @ decimal (nat \<lfloor>\<bar>x\<bar>\<rfloor>)),
      Number_of = (\<lambda>s. None),
      stringify_routes = (\<lambda>rs. if rs = [] then ''[]'' else concat (map name_r rs)),
      parse_routes = (\<lambda>s. if s = ''[]'' then Some (Parsed_array []) else None),
      stringify_buildings = (\<lambda>bs. if bs = [] then ''[]'' else concat (map type_b bs)),
      parse_buildings = (\<lambda>s. if s = ''[]'' then Some (Parsed_array []) else None)\<rparr>"

text \<open>
  The runtime of a browser: binary64 rounding after every operation. Its cosine and sine
  are the correctly rounded ones, which is more than an engine promises but is what
  every engine returns at 0, the only argument they are evaluated on below.
\<close>

definition double_js :: js where
  "double_js =
     exact_js\<lparr>fl := round_double,
              Math_cos := (\<lambda>x. round_double (cos x)),
              Math_sin := (\<lambda>x. round_double (sin x))\<rparr>"

definition initial_local_editor :: "surface \<Rightarrow> string option \<Rightarrow> local_editor" where
  "initial_local_editor m st =
     \<lparr>routes = [], routeName = [], routeType = ''major'', clickedPoints = [],
      isDrawing = False, isStyleLoaded = False, error = [], map_surface = m, alerts = [],
      storage = st\<rparr>"

definition initial_remote_editor :: "surface \<Rightarrow> remote_editor" where
  "initial_remote_editor m =
     \<lparr>routes = [], routeName = [], routeType = ''major'', clickedPoints = [],
      isDrawing = False, isStyleLoaded = False, error = [], map_surface = m, alerts = [],
      posted = []\<rparr>"

text \<open>Route editors in the middle of a drawing session.\<close>

definition drawing_one_point :: local_editor where
  "drawing_one_point =
     (initial_local_editor empty_surface None)
       \<lparr>routeName := ''Main St'', isDrawing := True, clickedPoints := [(77, 28)]\<rparr>"

definition drawing_unnamed :: remote_editor where
  "drawing_unnamed =
     (initial_remote_editor empty_surface)
       \<lparr>isDrawing := True, clickedPoints := [(77, 28), (78, 29)]\<rparr>"

definition drawing_main_st :: local_editor where
  "drawing_main_st =
     (initial_local_editor empty_surface None)
       \<lparr>routes := [\<lparr>id_r = 1700000000000, name_r = ''Old Rd'', type_r = ''minor'',
                    coordinates_r = [''76,27'', ''77,28''],
                    createdAt_r = ''2023-11-14T22:13:20.000Z''\<rparr>],
        routeName := ''Main St'', isDrawing := True, clickedPoints := [(77, 28), (78, 29)]\<rparr>"

definition drawing_main_st_remote :: remote_editor where
  "drawing_main_st_remote =
     (initial_remote_editor empty_surface)
       \<lparr>routeName := ''Main St'', isDrawing := True, clickedPoints := [(77, 28), (78, 29)]\<rparr>"

text \<open>A route editor whose store holds a text that is not JSON.\<close>

definition corrupt_store :: local_editor where
  "corrupt_store =
     (initial_local_editor empty_surface (Some ''[{id:17''))
       \<lparr>routes := [\<lparr>id_r = 1700000000000, name_r = ''Old Rd'', type_r = ''minor'',
                    coordinates_r = [''76,27'', ''77,28''],
                    createdAt_r = ''2023-11-14T22:13:20.000Z''\<rparr>]\<rparr>"

definition validation_message :: string where
  "validation_message = ''Please provide a route name and at least 2 points''"

text \<open>
  The invariant of the building record: its ring is the one computed from its own
  anchor, width and rotation.
\<close>

definition coordinates_current :: "js \<Rightarrow> building \<Rightarrow> bool" where
  "coordinates_current rt b \<longleftrightarrow>
     coordinates_b b
       = getRotatedCoordinates rt (location_b b) (js_div rt (width_b b) 111111) (rotation_b b)"

text \<open>Building editors: a park about to be added, and a catalog of two buildings.\<close>

definition park_editor :: building_editor where
  "park_editor =
     (initial_building_editor (Some empty_surface) (Some (77, 28)) None)
       \<lparr>buildingType := ''Park''\<rparr>"

definition office_3 :: building where
  "office_3 =
     \<lparr>id_b = 3, location_b = (77, 28),
      coordinates_b = [[(77 - 15 / 111111, 28 - 15 / 111111), (77 + 15 / 111111, 28 - 15 / 111111),
                        (77 + 15 / 111111, 28 + 15 / 111111), (77 - 15 / 111111, 28 + 15 / 111111)]],
      width_b = 30, height_b = 50, color_b = ''#ff0000'', rotation_b = 0,
      type_b = ''Office Building''\<rparr>"

definition park_1 :: building where
  "park_1 =
     \<lparr>id_b = 1, location_b = (78, 29),
      coordinates_b = [[(78 - 10 / 111111, 29 - 10 / 111111), (78 + 10 / 111111, 29 - 10 / 111111),
                        (78 + 10 / 111111, 29 + 10 / 111111), (78 - 10 / 111111, 29 + 10 / 111111)]],
      width_b = 20, height_b = 10, color_b = ''#00ff00'', rotation_b = 0,
      type_b = ''Park''\<rparr>"

definition two_buildings :: building_editor where
  "two_buildings = park_editor\<lparr>buildings := [office_3, park_1]\<rparr>"

definition office_selected :: building_editor where
  "office_selected = fst (handleSelectBuilding office_3 two_buildings)"

text \<open>
  A park of width 50 about to be added at the doubles nearest to longitude 100.3 and
  latitude 13.75.
\<close>

definition lng_100_3 :: real where
  "lng_100_3 = 7057985041019699 / 70368744177664"

definition lat_13_75 :: real where
  "lat_13_75 = 55 / 4"

definition park_at_100_3 :: building_editor where
  "park_at_100_3 =
     (initial_building_editor (Some empty_surface) (Some (lng_100_3, lat_13_75)) None)
       \<lparr>buildingType := ''Park'', buildingWidth := 50\<rparr>"

text \<open>
  Two adds in flight at once: a park is placed at one location and, before the answer to
  its request has arrived, a second one at another location.
\<close>

definition first_render :: session where
  "first_render = (initial_building_editor (Some empty_surface) None None, [])"

definition overlapping_adds :: "building_event list" where
  "overlapping_adds =
     [Set_location (Some (77, 28)), Set_type ''Park'', Add_click,
      Set_location (Some (78, 29)), Add_click,
      Add_response 0 (Aqi_data (Some 40)), Add_response 0 (Aqi_data (Some 40))]"

section \<open>Properties of the route editor\<close>

declare decimal.simps [simp del]

lemmas decimal_numeral [simp] =
  decimal.simps [of "numeral k" for k] decimal.simps [of 0] decimal.simps [of 1]

lemma fold_handleClick:
  "isDrawing w \<Longrightarrow> fold handleClick ps w = w\<lparr>clickedPoints := clickedPoints w @ ps\<rparr>"
  by (induction ps arbitrary: w) (simp_all add: handleClick_def)

lemma handleSaveRoute_accepts:
  assumes "routeName w \<noteq> []" "2 \<le> length (clickedPoints w)"
  shows "routes (handleSaveRoute rt now stamp w)
           = routes w @ [\<lparr>id_r = now, name_r = routeName w, type_r = routeType w,
                          coordinates_r = map (format_point rt) (clickedPoints w),
                          createdAt_r = stamp\<rparr>]"
  using assms by (simp add: handleSaveRoute_def saveRoutesToStorage_def Let_def)

lemma handleSaveRoute_remote_accepts:
  assumes "routeName w \<noteq> []" "2 \<le> length (clickedPoints w)"
  shows "posted (handleSaveRoute_remote rt stamp post got w)
           = posted w @ [\<lparr>name_d = routeName w, type_d = routeType w,
                          coordinates_d = map (format_point rt) (clickedPoints w),
                          createdAt_d = stamp\<rparr>]"
    and "routes (handleSaveRoute_remote rt stamp post got w)
           = (case post \<lparr>name_d = routeName w, type_d = routeType w,
                          coordinates_d = map (format_point rt) (clickedPoints w),
                          createdAt_d = stamp\<rparr> of
                Http_failed m \<Rightarrow> routes w
              | Http_ok u \<Rightarrow> (case got of Http_ok rs \<Rightarrow> rs | Http_failed m \<Rightarrow> routes w))"
  using assms
  by (simp_all add: handleSaveRoute_remote_def loadRoutes_remote_def Let_def split: http.splits)

text \<open>
  Claim C1. A commit with an empty route name or with fewer than two captured points
  changes nothing but the error message, in both variants: the catalog, the store (the
  requests sent, for the remote variant), the drawing flag and the point buffer are as
  before, and the message is set.
\<close>

theorem rejected_commit_changes_only_the_error:
  fixes wl :: local_editor and wr :: remote_editor
  assumes "routeName wl = [] \<or> length (clickedPoints wl) < 2"
      and "routeName wr = [] \<or> length (clickedPoints wr) < 2"
  shows "(let wl' = handleSaveRoute rt now stamp wl in
            wl' = wl\<lparr>error := validation_message\<rparr>
          \<and> routes wl' = routes wl \<and> storage wl' = storage wl
          \<and> isDrawing wl' = isDrawing wl \<and> clickedPoints wl' = clickedPoints wl
          \<and> error wl' = validation_message)
       \<and> (let wr' = handleSaveRoute_remote rt stamp post got wr in
            wr' = wr\<lparr>error := validation_message\<rparr>
          \<and> routes wr' = routes wr \<and> posted wr' = posted wr
          \<and> isDrawing wr' = isDrawing wr \<and> clickedPoints wr' = clickedPoints wr
          \<and> error wr' = validation_message)"
proof -
  have l: "handleSaveRoute rt now stamp wl = wl\<lparr>error := validation_message\<rparr>"
    using assms(1) by (auto simp: handleSaveRoute_def validation_message_def)
  have r: "handleSaveRoute_remote rt stamp post got wr = wr\<lparr>error := validation_message\<rparr>"
    using assms(2) by (auto simp: handleSaveRoute_remote_def validation_message_def)
  show ?thesis by (simp add: l r Let_def)
qed

theorem rejected_commit_witness:
  "length (clickedPoints drawing_one_point) < 2 \<and> routeName drawing_unnamed = []
   \<and> isDrawing drawing_one_point \<and> isDrawing drawing_unnamed
   \<and> handleSaveRoute exact_js 1700000005000 ''2023-11-14T22:13:25.000Z'' drawing_one_point
       = drawing_one_point\<lparr>error := validation_message\<rparr>
   \<and> handleSaveRoute_remote exact_js ''2023-11-14T22:13:25.000Z'' (\<lambda>d. Http_ok ()) (Http_ok [])
         drawing_unnamed
       = drawing_unnamed\<lparr>error := validation_message\<rparr>"
  using rejected_commit_changes_only_the_error
          [of drawing_one_point drawing_unnamed exact_js 1700000005000
              "''2023-11-14T22:13:25.000Z''" "\<lambda>d. Http_ok ()" "Http_ok []"]
  by (simp add: drawing_one_point_def drawing_unnamed_def initial_local_editor_def
        initial_remote_editor_def Let_def)

text \<open>
  Claim C5, as stated, fails for the remote variant: with a name and two points, the
  service accepts the route and the success message is shown, but the reload that
  follows fails, and the catalog has no new entry.
\<close>

theorem saved_route_missing_from_catalog:
  "alerts (handleSaveRoute_remote exact_js ''2023-11-14T22:13:25.000Z''
             (\<lambda>d. Http_ok ()) (Http_failed None) drawing_main_st_remote)
     = [''Route saved successfully!'']
   \<and> length (routes (handleSaveRoute_remote exact_js ''2023-11-14T22:13:25.000Z''
                       (\<lambda>d. Http_ok ()) (Http_failed None) drawing_main_st_remote))
       \<noteq> length (routes drawing_main_st_remote) + 1"
  by (simp add: handleSaveRoute_remote_def loadRoutes_remote_def drawing_main_st_remote_def
        initial_remote_editor_def Let_def)

text \<open>
  Claim C5, amended. With a name and at least two captured points, the variant backed
  by local storage appends exactly one entry to the catalog, and the remote variant
  sends exactly one request body; in both, the coordinates are as many strings as there
  are captured points, in the same order, the i-th being the longitude, a comma and the
  latitude of the i-th point. The catalog of the remote variant becomes the listing the
  service returns afterwards, and stays as it was when either request fails.
\<close>

theorem commit_serialises_points:
  fixes wl :: local_editor and wr :: remote_editor
  assumes "routeName wl \<noteq> []" and "2 \<le> length (clickedPoints wl)"
      and "routeName wr \<noteq> []" and "2 \<le> length (clickedPoints wr)"
  shows "(let wl' = handleSaveRoute rt now stamp wl; r = last (routes wl') in
            routes wl' = routes wl @ [r]
          \<and> length (coordinates_r r) = length (clickedPoints wl)
          \<and> (\<forall>i < length (clickedPoints wl).
                coordinates_r r ! i
                  = Number_toString rt (fst (clickedPoints wl ! i)) @ '',''
                    @ Number_toString rt (snd (clickedPoints wl ! i))))
       \<and> (let wr' = handleSaveRoute_remote rt stamp post got wr; d = last (posted wr') in
            posted wr' = posted wr @ [d]
          \<and> length (coordinates_d d) = length (clickedPoints wr)
          \<and> (\<forall>i < length (clickedPoints wr).
                coordinates_d d ! i
                  = Number_toString rt (fst (clickedPoints wr ! i)) @ '',''
                    @ Number_toString rt (snd (clickedPoints wr ! i)))
          \<and> routes wr' = (case post d of
                             Http_failed m \<Rightarrow> routes wr
                           | Http_ok u \<Rightarrow> (case got of Http_ok rs \<Rightarrow> rs
                                                      | Http_failed m \<Rightarrow> routes wr)))"
  using assms
  by (simp add: handleSaveRoute_accepts handleSaveRoute_remote_accepts Let_def format_point_def)

theorem commit_serialises_points_witness:
  "routeName drawing_main_st \<noteq> [] \<and> 2 \<le> length (clickedPoints drawing_main_st)
   \<and> routeName drawing_main_st_remote \<noteq> [] \<and> 2 \<le> length (clickedPoints drawing_main_st_remote)
   \<and> coordinates_r (last (routes (handleSaveRoute exact_js 1700000005000
                                     ''2023-11-14T22:13:25.000Z'' drawing_main_st)))
       = [''77,28'', ''78,29'']
   \<and> coordinates_d (last (posted (handleSaveRoute_remote exact_js ''2023-11-14T22:13:25.000Z''
                                     (\<lambda>d. Http_ok ()) (Http_ok []) drawing_main_st_remote)))
       = [''77,28'', ''78,29'']"
proof -
  have h: "routeName drawing_main_st \<noteq> []" "2 \<le> length (clickedPoints drawing_main_st)"
    "routeName drawing_main_st_remote \<noteq> []" "2 \<le> length (clickedPoints drawing_main_st_remote)"
    by (simp_all add: drawing_main_st_def drawing_main_st_remote_def
          initial_local_editor_def initial_remote_editor_def)
  let ?l = "coordinates_r (last (routes (handleSaveRoute exact_js 1700000005000
                                     ''2023-11-14T22:13:25.000Z'' drawing_main_st)))"
  let ?r = "coordinates_d (last (posted (handleSaveRoute_remote exact_js
                ''2023-11-14T22:13:25.000Z'' (\<lambda>d. Http_ok ()) (Http_ok [])
                drawing_main_st_remote)))"
  have pl: "clickedPoints drawing_main_st = [(77, 28), (78, 29)]"
    and pr: "clickedPoints drawing_main_st_remote = [(77, 28), (78, 29)]"
    by (simp_all add: drawing_main_st_def drawing_main_st_remote_def
          initial_local_editor_def initial_remote_editor_def)
  from commit_serialises_points [OF h, of exact_js 1700000005000 "''2023-11-14T22:13:25.000Z''"
         "\<lambda>d. Http_ok ()" "Http_ok []"]
  have l: "length ?l = 2" "?l ! 0 = ''77,28''" "?l ! 1 = ''78,29''"
    and r: "length ?r = 2" "?r ! 0 = ''77,28''" "?r ! 1 = ''78,29''"
    by (simp_all add: Let_def pl pr exact_js_def)
  have "?l = [''77,28'', ''78,29'']"
    using l by (intro nth_equalityI) (auto simp: less_Suc_eq numeral_2_eq_2)
  moreover have "?r = [''77,28'', ''78,29'']"
    using r by (intro nth_equalityI) (auto simp: less_Suc_eq numeral_2_eq_2)
  ultimately show ?thesis using h by simp
qed

text \<open>
  Claim C7, as stated, fails: after Start Drawing, three clicks and Cancel Drawing the
  buffer is not empty. The button clears it only when drawing starts.
\<close>

theorem cancel_keeps_buffer:
  "clickedPoints (toggleDrawing (handleClick (79, 30) (handleClick (78, 29) (handleClick (77, 28)
      (toggleDrawing (initial_local_editor empty_surface None)))))) \<noteq> []"
  by (simp add: toggleDrawing_def handleClick_def initial_local_editor_def Let_def)

text \<open>
  Claim C7, amended. From an idle session, Start Drawing, any number of captured points
  and Cancel Drawing leave the session idle and the catalog unchanged; the buffer still
  holds the captured points, and the next Start Drawing empties it. This holds in both
  variants.
\<close>

theorem cancel_returns_to_idle:
  fixes w :: "'a route_ui_scheme"
  assumes "\<not> isDrawing w"
  shows "(let w' = toggleDrawing (fold handleClick ps (toggleDrawing w)) in
            \<not> isDrawing w' \<and> routes w' = routes w \<and> clickedPoints w' = ps
          \<and> clickedPoints (toggleDrawing w') = [])"
proof -
  have d: "isDrawing (toggleDrawing w)"
    using assms by (simp add: toggleDrawing_def Let_def)
  have "fold handleClick ps (toggleDrawing w) = (toggleDrawing w)\<lparr>clickedPoints := ps\<rparr>"
    using fold_handleClick [OF d, of ps] assms by (simp add: toggleDrawing_def Let_def)
  then show ?thesis
    using assms by (simp add: toggleDrawing_def Let_def)
qed

theorem cancel_returns_to_idle_witness:
  "\<not> isDrawing (initial_local_editor empty_surface None)
   \<and> (let w' = toggleDrawing (fold handleClick [(77, 28), (78, 29), (79, 30)]
                   (toggleDrawing (initial_local_editor empty_surface None))) in
        \<not> isDrawing w' \<and> routes w' = [] \<and> clickedPoints w' = [(77, 28), (78, 29), (79, 30)]
      \<and> clickedPoints (toggleDrawing w') = [])"
  using cancel_returns_to_idle [of "initial_local_editor empty_surface None"
          "[(77, 28), (78, 29), (79, 30)]"]
  by (simp add: initial_local_editor_def)

text \<open>
  Claim C10. \<open>loadRoutes\<close> of the variant backed by local storage always returns, and
  when nothing is stored under the key or the stored text is not JSON, the catalog it
  leaves is empty and nothing else has changed.
\<close>

theorem loadRoutes_never_throws:
  "(\<exists>w'. loadRoutes rt w = Inr w')
   \<and> ((storage w = None \<or> (\<exists>saved. storage w = Some saved \<and> parse_routes rt saved = None))
        \<longrightarrow> loadRoutes rt w = Inr (w\<lparr>routes := []\<rparr>))"
  by (auto simp: loadRoutes_def loadRoutes_try_def split: option.splits sum.splits parsed.splits)

theorem loadRoutes_never_throws_witness:
  "storage corrupt_store = Some ''[{id:17'' \<and> parse_routes exact_js ''[{id:17'' = None
   \<and> routes corrupt_store \<noteq> []
   \<and> loadRoutes exact_js corrupt_store = Inr (corrupt_store\<lparr>routes := []\<rparr>)"
  using loadRoutes_never_throws [of exact_js corrupt_store]
  by (simp add: corrupt_store_def initial_local_editor_def exact_js_def)

section \<open>Properties of the building editor\<close>

lemma fl_exact [simp]: "fl exact_js = (\<lambda>x. x)"
  by (simp add: exact_js_def)

lemma buildings_alert [simp]: "buildings (alert msg w) = buildings w"
  by (simp add: alert_def)

lemma selectedBuilding_alert [simp]: "selectedBuilding (alert msg w) = selectedBuilding w"
  by (simp add: alert_def)

lemma handleAddBuilding_from_accepts:
  assumes "clickedLocation snap = Some loc" and "buildingType snap \<noteq> []"
      and "\<not> above_ceiling aqi (buildingType snap)"
  shows "buildings (fst (handleAddBuilding_from rt (Aqi_data (Some aqi)) snap w))
           = buildings w @
             [\<lparr>id_b = newId rt (buildings snap), location_b = loc,
               coordinates_b = getRotatedCoordinates rt loc
                                 (js_div rt (buildingWidth snap) 111111)
                                 (buildingRotation snap),
               width_b = buildingWidth snap, height_b = buildingHeight snap,
               color_b = buildingColor snap, rotation_b = buildingRotation snap,
               type_b = buildingType snap\<rparr>]"
  using assms by (simp add: handleAddBuilding_from_def Let_def split: prod.splits)

lemma handleAddBuilding_accepts:
  assumes "clickedLocation w = Some loc" and "buildingType w \<noteq> []"
      and "aqi \<le> maxAqiAllowed (buildingType w)"
  shows "buildings (fst (handleAddBuilding rt (Aqi_data (Some aqi)) w))
           = buildings w @
             [\<lparr>id_b = newId rt (buildings w), location_b = loc,
               coordinates_b = getRotatedCoordinates rt loc (js_div rt (buildingWidth w) 111111)
                                 (buildingRotation w),
               width_b = buildingWidth w, height_b = buildingHeight w,
               color_b = buildingColor w, rotation_b = buildingRotation w,
               type_b = buildingType w\<rparr>]"
  unfolding handleAddBuilding_def
  using assms by (intro handleAddBuilding_from_accepts) (simp_all add: above_ceiling_def)

lemma handleAddBuilding_from_buildings:
  "buildings (fst (handleAddBuilding_from rt lookup snap w)) = buildings w
   \<or> (\<exists>loc. clickedLocation snap = Some loc \<and>
         buildings (fst (handleAddBuilding_from rt lookup snap w))
           = buildings w @
             [\<lparr>id_b = newId rt (buildings snap), location_b = loc,
               coordinates_b = getRotatedCoordinates rt loc
                                 (js_div rt (buildingWidth snap) 111111)
                                 (buildingRotation snap),
               width_b = buildingWidth snap, height_b = buildingHeight snap,
               color_b = buildingColor snap, rotation_b = buildingRotation snap,
               type_b = buildingType snap\<rparr>])"
  by (simp add: handleAddBuilding_from_def Let_def
        split: option.splits prod.splits aqi_lookup.splits)

lemma updatedBuilding_current: "coordinates_current rt (updatedBuilding rt sb w)"
  by (simp add: coordinates_current_def updatedBuilding_def Let_def)

lemma handleUpdateBuilding_buildings:
  "buildings (handleUpdateBuilding rt w)
     = (case selectedBuilding w of
          None \<Rightarrow> buildings w
        | Some sb \<Rightarrow> map (\<lambda>b. if id_b b = id_b sb then updatedBuilding rt sb w else b)
                       (buildings w))"
  by (simp add: handleUpdateBuilding_def Let_def
        split: option.splits prod.splits sum.splits)

lemma handleDeleteBuilding_buildings:
  "buildings (handleDeleteBuilding rt i w)
     = (case map_b w of None \<Rightarrow> buildings w
        | Some m \<Rightarrow> filter (\<lambda>b. id_b b \<noteq> i) (buildings w))"
  by (simp add: handleDeleteBuilding_def Let_def split: option.splits sum.splits)

lemma exact_rad [simp]:
  "getRotatedCoordinates exact_js c s 0
     = [[(fst c - s / 2, snd c - s / 2), (fst c + s / 2, snd c - s / 2),
         (fst c + s / 2, snd c + s / 2), (fst c - s / 2, snd c + s / 2)]]"
  by (simp add: getRotatedCoordinates_def exact_js_def js_div_def js_mul_def js_add_def
        js_sub_def Math_PI_def Let_def)

lemma step_keeps_current:
  assumes "list_all (coordinates_current rt) (buildings (fst s))"
  shows "list_all (coordinates_current rt) (buildings (fst (step rt ev s)))"
proof -
  obtain w waiting where s: "s = (w, waiting)" by (cases s)
  have w: "list_all (coordinates_current rt) (buildings w)" using assms s by simp
  show ?thesis
  proof (cases ev)
    case Add_click
    then show ?thesis using w s by simp
  next
    case (Add_response k lookup)
    show ?thesis
      using handleAddBuilding_from_buildings [of rt lookup "waiting ! k" w] w
      by (auto simp: Add_response s coordinates_current_def)
  next
    case Update
    then show ?thesis
      using w updatedBuilding_current
      by (auto simp: s handleUpdateBuilding_buildings list_all_iff split: option.splits)
  next
    case Delete
    then show ?thesis
      using w
      by (auto simp: s handleDeleteBuilding_buildings list_all_iff split: option.splits)
  next
    case (Select i)
    then show ?thesis using w by (simp add: s handleSelectBuilding_def)
  qed (use w s in simp_all)
qed

text \<open>
  Claim C2. The catalog invariant is kept by every event of the editor, so after any
  sequence of events (adds and updates among them, the adds overlapping or not) from a
  catalog that has it, the empty one in particular, every record's ring is
  \<open>getRotatedCoordinates\<close> of that record's own anchor, width and rotation.
\<close>

theorem coordinates_never_drift:
  assumes "list_all (coordinates_current rt) (buildings (fst s))"
  shows "list_all (coordinates_current rt) (buildings (fst (run rt evs s)))"
  using assms unfolding run_def
  by (induction evs arbitrary: s) (simp_all add: step_keeps_current)

theorem coordinates_never_drift_witness:
  "list_all (coordinates_current exact_js) (buildings two_buildings)
   \<and> length (buildings two_buildings) = 2
   \<and> list_all (coordinates_current exact_js)
        (buildings (fst (run exact_js
           [Select 0, Set_width 60, Set_rotation 90, Update, Set_type ''Park'',
            Add_click, Set_location (Some (78, 29)), Add_click,
            Add_response 0 (Aqi_data (Some 40)), Add_response 0 (Aqi_data (Some 40))]
           (two_buildings, []))))"
proof -
  have h: "list_all (coordinates_current exact_js) (buildings (fst (two_buildings, [])))"
    by (simp add: two_buildings_def office_3_def park_1_def coordinates_current_def
          js_div_def)
  show ?thesis
    using coordinates_never_drift [OF h] h by (simp add: two_buildings_def)
qed

text \<open>
  The air-quality gate of the add. With a location and a type chosen, a response that
  is not \<open>ok\<close>, a body without an index and an index above the ceiling of the type each
  end the add with one message and the state otherwise unchanged; an index at or below
  the ceiling appends one entry (\<open>handleAddBuilding_accepts\<close>). Update and delete take
  no lookup at all.
\<close>

lemma add_blocked:
  assumes "clickedLocation w = Some loc" and "buildingType w \<noteq> []"
      and "lookup = Status_not_ok \<or> lookup = Aqi_data None
           \<or> (\<exists>aqi. lookup = Aqi_data (Some aqi) \<and> above_ceiling aqi (buildingType w))"
  shows "\<exists>reason. handleAddBuilding rt lookup w = (alert reason w, None)"
  using assms by (auto simp: handleAddBuilding_def handleAddBuilding_from_def)

lemma park_ceiling: "maxAqiAllowed ''Park'' = 50"
  by (simp add: maxAqiAllowed_def buildingAqiLimits_def)

lemma park_above_ceiling: "above_ceiling aqi ''Park'' \<longleftrightarrow> 50 < aqi"
  by (simp add: above_ceiling_def park_ceiling Object_prototype_keys_def)

lemma park_scenario:
  "buildings (fst (handleAddBuilding exact_js (Aqi_data (Some 80)) park_editor)) = []"
  "length (buildings (fst (handleAddBuilding exact_js (Aqi_data (Some 40)) park_editor))) = 1"
  "alerts_b (fst (handleAddBuilding exact_js (Aqi_data (Some 80)) park_editor))
     = [''AQI too high for a Park. AQI: 80'']"
  by (simp_all add: handleAddBuilding_def handleAddBuilding_from_def park_editor_def
        initial_building_editor_def park_above_ceiling alert_def Let_def exact_js_def
        split: prod.splits)

text \<open>
  Where the lookup fails at the network, a rejected \<open>fetch\<close> (and a rejected
  \<open>response.json()\<close>) is not caught: the add is abandoned with the state unchanged,
  and so with no message at all. An index that is present but not a number is not
  caught either: it is not above any ceiling, and the building is added.
\<close>

lemma add_rejected_lookup:
  assumes "clickedLocation w = Some loc" and "buildingType w \<noteq> []"
      and "lookup = Fetch_rejected \<or> lookup = Body_rejected"
  shows "handleAddBuilding rt lookup w = (w, Some Rejected)"
  using assms by (auto simp: handleAddBuilding_def handleAddBuilding_from_def)

lemma add_on_index_not_a_number:
  assumes "clickedLocation w = Some loc" and "buildingType w \<noteq> []"
  shows "length (buildings (fst (handleAddBuilding rt Aqi_not_a_number w)))
           = length (buildings w) + 1"
  using assms
  by (simp add: handleAddBuilding_def handleAddBuilding_from_def Let_def split: prod.splits)

text \<open>
  Claim C3 says that a failed lookup aborts the add with a reported reason. At this
  input it does not: a park is about to be added and \<open>fetch\<close> rejects; the handler
  ends on the uncaught rejection, the catalog is unchanged and nothing has been shown.
\<close>

theorem add_on_network_failure:
  "handleAddBuilding exact_js Fetch_rejected park_editor = (park_editor, Some Rejected)
   \<and> alerts_b (fst (handleAddBuilding exact_js Fetch_rejected park_editor)) = []"
  by (simp add: handleAddBuilding_def handleAddBuilding_from_def park_editor_def
        initial_building_editor_def)

section \<open>Properties of the arithmetic and of the geometry\<close>

subsection \<open>Rounding to the nearest double\<close>

lemma round_even_of_int [simp]: "round_even (of_int k) = k"
  by (simp add: round_even_def)

lemma round_even_minus: "round_even (- y) = - round_even y"
proof (cases "y = of_int \<lfloor>y\<rfloor>")
  case True
  then obtain k :: int where "y = of_int k" ..
  then have "- y = of_int (- k)" by simp
  then show ?thesis using \<open>y = of_int k\<close> by (metis round_even_of_int)
next
  case False
  then have f: "\<lfloor>- y\<rfloor> = - \<lfloor>y\<rfloor> - 1"
    by (metis ceiling_def ceiling_altdef diff_minus_eq_add minus_diff_eq neg_equal_iff_equal uminus_add_conv_diff add.commute minus_minus)
  show ?thesis
    unfolding round_even_def Let_def f by (auto simp: algebra_simps)
qed

lemma round_even_upper: "y \<le> of_int N \<Longrightarrow> round_even y \<le> N"
proof -
  assume a: "y \<le> of_int N"
  show ?thesis
  proof (cases "y = of_int N")
    case True then show ?thesis by simp
  next
    case False
    then have "y < of_int N" using a by simp
    then have "\<lfloor>y\<rfloor> < N" by (simp add: floor_less_iff)
    then show ?thesis unfolding round_even_def Let_def by auto
  qed
qed

lemma round_even_lower: "of_int N \<le> y \<Longrightarrow> N \<le> round_even y"
proof -
  assume "of_int N \<le> y"
  then have "N \<le> \<lfloor>y\<rfloor>" by (simp add: le_floor_iff)
  then show ?thesis unfolding round_even_def Let_def by auto
qed

lemma round_even_abs_le:
  assumes "\<bar>y\<bar> \<le> of_int N"
  shows "\<bar>round_even y\<bar> \<le> N"
proof -
  have "y \<le> of_int N" and "of_int (- N) \<le> y" using assms by auto
  then have "round_even y \<le> N" and "- N \<le> round_even y"
    by (auto intro: round_even_upper round_even_lower)
  then show ?thesis by simp
qed

lemma floor_log2_bounds:
  assumes "x \<noteq> 0"
  shows "2 powr of_int \<lfloor>log 2 \<bar>x\<bar>\<rfloor> \<le> \<bar>x\<bar>" and "\<bar>x\<bar> < 2 powr of_int (\<lfloor>log 2 \<bar>x\<bar>\<rfloor> + 1)"
proof -
  have p: "0 < \<bar>x\<bar>" using assms by simp
  show "2 powr of_int \<lfloor>log 2 \<bar>x\<bar>\<rfloor> \<le> \<bar>x\<bar>"
    using le_log_iff [of 2 "\<bar>x\<bar>" "of_int \<lfloor>log 2 \<bar>x\<bar>\<rfloor>"] p by simp
  have "log 2 \<bar>x\<bar> < of_int (\<lfloor>log 2 \<bar>x\<bar>\<rfloor> + 1)" by simp
  then show "\<bar>x\<bar> < 2 powr of_int (\<lfloor>log 2 \<bar>x\<bar>\<rfloor> + 1)"
    using log_less_iff [of 2 "\<bar>x\<bar>" "of_int (\<lfloor>log 2 \<bar>x\<bar>\<rfloor> + 1)"] p by simp
qed

lemma floor_log2_eq:
  assumes "2 powr of_int a \<le> \<bar>x\<bar>" and "\<bar>x\<bar> < 2 powr of_int (a + 1)"
  shows "\<lfloor>log 2 \<bar>x\<bar>\<rfloor> = a"
proof (rule floor_unique)
  have "0 < (2::real) powr of_int a" by simp
  then have p: "0 < \<bar>x\<bar>" using assms(1) by linarith
  show "of_int a \<le> log 2 \<bar>x\<bar>" using assms(1) p by (simp add: le_log_iff)
  show "log 2 \<bar>x\<bar> < of_int a + 1" using assms(2) p by (simp add: log_less_iff)
qed

lemma round_double_zero [simp]: "round_double 0 = 0"
  by (simp add: round_double_def)

lemma ulp_exponent_minus [simp]: "ulp_exponent (- x) = ulp_exponent x"
  by (simp add: ulp_exponent_def)

lemma round_double_minus: "round_double (- x) = - round_double x"
  by (simp add: round_double_def round_even_minus)

lemma two_powr_int_diff:
  "(2::real) powr of_int a / 2 powr of_int b = 2 powr of_int (a - b)"
  by (simp add: powr_diff)

lemma two_powr_nat: "0 \<le> k \<Longrightarrow> (2::real) powr of_int k = of_int (2 ^ nat k)"
  by (simp add: powr_int)

lemma round_double_of_multiple:
  assumes "r = of_int k * 2 powr of_int (ulp_exponent r)"
  shows "round_double r = r"
proof (cases "r = 0")
  case True
  then show ?thesis by simp
next
  case False
  have "r / 2 powr of_int (ulp_exponent r) = of_int k"
    using assms by (metis nonzero_eq_divide_eq powr_gt_zero zero_neq_numeral less_irrefl)
  then show ?thesis
    using assms False by (simp add: round_double_def)
qed

lemma round_double_idem: "round_double (round_double x) = round_double x"
proof (cases "x = 0")
  case True
  then show ?thesis by simp
next
  case x: False
  define e where "e = ulp_exponent x"
  define m where "m = round_even (x / 2 powr of_int e)"
  define r :: real where "r = of_int m * 2 powr of_int e"
  have rd: "round_double x = r"
    using x by (simp add: round_double_def r_def m_def e_def)
  define a where "a = \<lfloor>log 2 \<bar>x\<bar>\<rfloor>"
  have e_ge: "a - 52 \<le> e" "- 1074 \<le> e"
    by (simp_all add: e_def ulp_exponent_def a_def)
  have "\<bar>x\<bar> < 2 powr of_int (a + 1)"
    using floor_log2_bounds(2) [OF x] by (simp add: a_def)
  also have "\<dots> \<le> 2 powr of_int (e + 53)"
    using e_ge by simp
  finally have "\<bar>x\<bar> / 2 powr of_int e < 2 powr of_int (e + 53) / 2 powr of_int e"
    by (simp add: divide_strict_right_mono)
  also have "\<dots> = 2 powr of_int 53"
    by (simp only: two_powr_int_diff) simp
  also have "\<dots> = of_int (2 ^ 53)"
    by (simp add: two_powr_nat)
  finally have "\<bar>x / 2 powr of_int e\<bar> \<le> of_int (2 ^ 53)"
    by simp
  then have m_le: "\<bar>m\<bar> \<le> 2 ^ 53"
    unfolding m_def by (rule round_even_abs_le)
  show ?thesis
  proof (cases "r = 0")
    case True
    then show ?thesis by (simp add: rd)
  next
    case r: False
    define e' where "e' = ulp_exponent r"
    define a' where "a' = \<lfloor>log 2 \<bar>r\<bar>\<rfloor>"
    have "2 powr of_int a' \<le> \<bar>r\<bar>"
      using floor_log2_bounds(1) [OF r] by (simp add: a'_def)
    also have "\<bar>r\<bar> = of_int \<bar>m\<bar> * 2 powr of_int e"
      by (simp add: r_def abs_mult)
    also have "\<dots> \<le> of_int (2 ^ 53) * 2 powr of_int e"
      using m_le by (intro mult_right_mono) (simp_all only: of_int_le_iff powr_ge_zero)
    also have "\<dots> = 2 powr of_int (e + 53)"
      by (simp add: powr_add two_powr_nat [of 53, simplified])
    finally have a'_le: "a' \<le> e + 53"
      by simp
    have e'_eq: "e' = max (a' - 52) (- 1074)"
      by (simp add: e'_def ulp_exponent_def a'_def)
    have "\<exists>k. r = of_int k * 2 powr of_int e'"
    proof (cases "e' \<le> e")
      case True
      have "(2::real) powr of_int (e - e') * 2 powr of_int e' = 2 powr of_int e"
        by (simp flip: powr_add)
      then have "r = of_int m * (2 powr of_int (e - e') * 2 powr of_int e')"
        by (simp only: r_def)
      also have "(2::real) powr of_int (e - e') = of_int (2 ^ nat (e - e'))"
        using True by (intro two_powr_nat) simp
      finally have "r = of_int (m * 2 ^ nat (e - e')) * 2 powr of_int e'"
        by (simp only: of_int_mult mult.assoc)
      then show ?thesis by blast
    next
      case False
      then have e': "e' = e + 1" and a': "a' = e + 53"
        using a'_le e'_eq e_ge by linarith+
      have "2 powr of_int (e + 53) \<le> \<bar>r\<bar>"
        using floor_log2_bounds(1) [OF r] a' by (simp add: a'_def)
      also have "\<bar>r\<bar> = of_int \<bar>m\<bar> * 2 powr of_int e"
        by (simp add: r_def abs_mult)
      also have "(2::real) powr of_int (e + 53) = of_int (2 ^ 53) * 2 powr of_int e"
        by (simp add: powr_add two_powr_nat [of 53, simplified])
      finally have "real_of_int (2 ^ 53) \<le> of_int \<bar>m\<bar>"
        by (simp only: mult_le_cancel_right powr_gt_zero)
      then have "(2 ^ 53 :: int) \<le> \<bar>m\<bar>"
        by (simp only: of_int_le_iff)
      then have "\<bar>m\<bar> = 2 ^ 53" using m_le by simp
      then have "m = 2 ^ 53 \<or> m = - (2 ^ 53)" by (auto simp: abs_if split: if_splits)
      then have "even m" by auto
      then have "m = 2 * (m div 2)" by simp
      then have "r = of_int (m div 2) * (2 * 2 powr of_int e)"
        by (metis (no_types, opaque_lifting) r_def of_int_mult of_int_numeral mult.assoc mult.commute)
      also have "2 * 2 powr of_int e = (2::real) powr of_int e'"
        by (simp add: e' powr_add)
      finally show ?thesis by blast
    qed
    then obtain k where "r = of_int k * 2 powr of_int (ulp_exponent r)"
      by (auto simp: e'_def)
    then have "round_double r = r"
      by (rule round_double_of_multiple)
    then show ?thesis by (simp add: rd)
  qed
qed

text \<open>
  Evaluation: for a number whose magnitude times \<open>2^n\<close> lies between \<open>2^52\<close> and \<open>2^53\<close>,
  the nearest double is the nearest integer to the scaled number, scaled back.
\<close>

lemma round_double_scaled:
  fixes n :: nat
  assumes "n \<le> 1074" and "2 ^ 52 \<le> \<bar>x\<bar> * 2 ^ n" and "\<bar>x\<bar> * 2 ^ n < 2 ^ 53"
  shows "round_double x = of_int (round_even (x * 2 ^ n)) / 2 ^ n"
proof -
  have x: "x \<noteq> 0" using assms(2) by auto
  have p: "(2::real) powr of_int (- int n) = 1 / 2 ^ n"
    by (simp add: powr_minus powr_realpow divide_inverse)
  have "2 powr of_int (52 - int n) \<le> \<bar>x\<bar>"
  proof -
    have "(2::real) powr of_int (52 - int n) = 2 powr (52 - real n)"
      by simp
    also have "\<dots> = 2 powr 52 / 2 powr real n"
      by (rule powr_diff)
    also have "\<dots> = 2 ^ 52 / 2 ^ n"
      by (simp add: powr_realpow)
    finally have eq: "(2::real) powr of_int (52 - int n) = 2 ^ 52 / 2 ^ n" .
    show ?thesis unfolding eq using assms(2) by (simp only: pos_divide_le_eq zero_less_power zero_less_numeral)
  qed
  moreover have "\<bar>x\<bar> < 2 powr of_int (52 - int n + 1)"
  proof -
    have "(2::real) powr of_int (52 - int n + 1) = 2 powr (53 - real n)"
      by simp
    also have "\<dots> = 2 powr 53 / 2 powr real n"
      by (rule powr_diff)
    also have "\<dots> = 2 ^ 53 / 2 ^ n"
      by (simp add: powr_realpow)
    finally have eq: "(2::real) powr of_int (52 - int n + 1) = 2 ^ 53 / 2 ^ n" .
    show ?thesis unfolding eq using assms(3) by (simp only: pos_less_divide_eq zero_less_power zero_less_numeral)
  qed
  ultimately have "\<lfloor>log 2 \<bar>x\<bar>\<rfloor> = 52 - int n"
    by (rule floor_log2_eq)
  then have "ulp_exponent x = - int n"
    using assms(1) by (simp add: ulp_exponent_def)
  then show ?thesis
    using x p by (simp add: round_double_def)
qed

lemma rounding_round_double: "rounding round_double"
  by (simp add: rounding_def round_double_minus round_double_idem)

lemma rounding_exact: "rounding (\<lambda>x. x)"
  by (simp add: rounding_def)

lemma round_double_one: "round_double 1 = 1"
  by (simp add: round_double_scaled [where n = 52] round_even_def)

lemma fl_double [simp]: "fl double_js = round_double"
  by (simp add: double_js_def)

lemma ieee_like_double: "ieee_like double_js"
  by (simp add: ieee_like_def double_js_def rounding_round_double round_double_one)

lemma ieee_like_exact: "ieee_like exact_js"
  by (simp add: ieee_like_def exact_js_def rounding_exact)

subsection \<open>The ring at rotation 0\<close>

lemma ring_at_rotation_zero:
  assumes "ieee_like rt" and "fl rt (snd c) = snd c"
  shows "getRotatedCoordinates rt c s 0 =
           [[(js_add rt (fst c) (- js_div rt s 2), js_add rt (snd c) (- js_div rt s 2)),
             (js_add rt (fst c) (js_div rt s 2), js_add rt (snd c) (- js_div rt s 2)),
             (js_add rt (fst c) (js_div rt s 2), js_add rt (snd c) (js_div rt s 2)),
             (js_add rt (fst c) (- js_div rt s 2), js_add rt (snd c) (js_div rt s 2))]]"
proof -
  have z: "fl rt 0 = 0" and o: "\<And>x. fl rt (- x) = - fl rt x" and i: "\<And>x. fl rt (fl rt x) = fl rt x"
    and cs: "Math_cos rt 0 = 1" "Math_sin rt 0 = 0"
    using assms(1) by (auto simp: ieee_like_def rounding_def)
  have rad: "js_div rt (js_mul rt 0 (Math_PI rt)) 180 = 0"
    by (simp add: js_div_def js_mul_def z)
  have neg: "js_div rt (- s) 2 = - js_div rt s 2"
    by (simp add: js_div_def o)
  have m1: "js_mul rt (js_div rt s 2) 1 = js_div rt s 2"
    "js_mul rt (- js_div rt s 2) 1 = - js_div rt s 2"
    by (simp_all add: js_mul_def js_div_def o i)
  have m0: "\<And>y. js_mul rt y 0 = 0"
    by (simp add: js_mul_def z)
  have x: "\<And>a. js_sub rt (js_add rt (fst c) a) 0 = js_add rt (fst c) a"
    by (simp add: js_sub_def js_add_def i)
  have y: "\<And>a. js_add rt (js_add rt (snd c) 0) a = js_add rt (snd c) a"
    by (simp add: js_add_def assms(2))
  show ?thesis
    by (simp add: getRotatedCoordinates_def Let_def rad cs neg m1 m0 x y)
qed

lemma ring_center_four:
  "ring_center rt [p1, p2, p3, p4] =
     Some (js_div rt (js_add rt (js_add rt (js_add rt (js_add rt 0 (fst p1)) (fst p2)) (fst p3))
                        (fst p4)) 4,
           js_div rt (js_add rt (js_add rt (js_add rt (js_add rt 0 (snd p1)) (snd p2)) (snd p3))
                        (snd p4)) 4)"
  by (simp add: ring_center_def)

text \<open>
  The park of width 50 at longitude 100.3, in binary64: the size in degrees, half of it,
  the four edges of the ring and the running sums of the label position, each one an
  operation of the source followed by its rounding.
\<close>

lemma size_50: "js_div double_js 50 111111 = 518815195888277 / 1152921504606846976"
  by (simp add: js_div_def round_double_scaled [where n = 64] round_even_def)

lemma half_size_50:
  "js_div double_js (518815195888277 / 1152921504606846976) 2
     = 518815195888277 / 2305843009213693952"
  by (simp add: js_div_def round_double_scaled [where n = 65] round_even_def)

lemma west_edge:
  "js_add double_js lng_100_3 (- (518815195888277 / 2305843009213693952))
     = 3528984604018213 / 35184372088832"
  by (simp add: js_add_def lng_100_3_def round_double_scaled [where n = 46] round_even_def)

lemma east_edge:
  "js_add double_js lng_100_3 (518815195888277 / 2305843009213693952)
     = 1764500218500743 / 17592186044416"
  by (simp add: js_add_def lng_100_3_def round_double_scaled [where n = 46] round_even_def)

lemma sum_0: "js_add double_js 0 (3528984604018213 / 35184372088832)
     = 3528984604018213 / 35184372088832"
  by (simp add: js_add_def round_double_scaled [where n = 46] round_even_def)

lemma sum_1:
  "js_add double_js (3528984604018213 / 35184372088832) (1764500218500743 / 17592186044416)
     = 7057985041019699 / 35184372088832"
  by (simp add: js_add_def round_double_scaled [where n = 45] round_even_def)

lemma sum_2:
  "js_add double_js (7057985041019699 / 35184372088832) (1764500218500743 / 17592186044416)
     = 165421648094081 / 549755813888"
  by (simp add: js_add_def round_double_scaled [where n = 44] round_even_def)

lemma sum_3:
  "js_add double_js (165421648094081 / 549755813888) (3528984604018213 / 35184372088832)
     = 3528992520509849 / 8796093022208"
  by (simp add: js_add_def round_double_scaled [where n = 44] round_even_def)

lemma mean_lng:
  "js_div double_js (3528992520509849 / 8796093022208) 4 = 3528992520509849 / 35184372088832"
  by (simp add: js_div_def round_double_scaled [where n = 46] round_even_def)

lemma lat_double: "round_double lat_13_75 = lat_13_75"
  by (simp add: lat_13_75_def round_double_scaled [where n = 49] round_even_def)

lemma south_edge:
  "js_add double_js lat_13_75 (- (518815195888277 / 2305843009213693952))
     = 967554399459607 / 70368744177664"
  by (simp add: js_add_def lat_13_75_def round_double_scaled [where n = 49] round_even_def)

lemma north_edge:
  "js_add double_js lat_13_75 (518815195888277 / 2305843009213693952)
     = 967586065426153 / 70368744177664"
  by (simp add: js_add_def lat_13_75_def round_double_scaled [where n = 49] round_even_def)

lemma lat_sum_0: "js_add double_js 0 (967554399459607 / 70368744177664)
     = 967554399459607 / 70368744177664"
  by (simp add: js_add_def round_double_scaled [where n = 49] round_even_def)

lemma lat_sum_1:
  "js_add double_js (967554399459607 / 70368744177664) (967554399459607 / 70368744177664)
     = 967554399459607 / 35184372088832"
  by (simp add: js_add_def round_double_scaled [where n = 48] round_even_def)

lemma lat_sum_2:
  "js_add double_js (967554399459607 / 35184372088832) (967586065426153 / 70368744177664)
     = 2902694864345367 / 70368744177664"
  by (simp add: js_add_def round_double_scaled [where n = 47] round_even_def)

lemma lat_sum_3:
  "js_add double_js (2902694864345367 / 70368744177664) (967586065426153 / 70368744177664) = 55"
  by (simp add: js_add_def round_double_scaled [where n = 47] round_even_def)

lemma mean_lat: "js_div double_js 55 4 = lat_13_75"
  by (simp add: js_div_def lat_13_75_def round_double_scaled [where n = 49] round_even_def)

lemmas double_chain =
  size_50 half_size_50 west_edge east_edge sum_0 sum_1 sum_2 sum_3 mean_lng
  south_edge north_edge lat_sum_0 lat_sum_1 lat_sum_2 lat_sum_3 mean_lat

lemma ring_double:
  "getRotatedCoordinates double_js (lng_100_3, lat_13_75)
       (518815195888277 / 1152921504606846976) 0
     = [[(3528984604018213 / 35184372088832, 967554399459607 / 70368744177664),
         (1764500218500743 / 17592186044416, 967554399459607 / 70368744177664),
         (1764500218500743 / 17592186044416, 967586065426153 / 70368744177664),
         (3528984604018213 / 35184372088832, 967586065426153 / 70368744177664)]]"
  using ring_at_rotation_zero [OF ieee_like_double, of "(lng_100_3, lat_13_75)"
          "518815195888277 / 1152921504606846976"]
  by (simp add: lat_double double_chain)

text \<open>
  Claim C6. At rotation 0 the result is one ring of exactly four corners, the first not
  repeated at the end, in the order south-west, south-east, north-east, north-west: the
  anchor plus or minus half the size in each coordinate, where the size is the width
  divided by 111111 and every operation is the runtime's. With exact arithmetic this
  is the axis-aligned square of that side centred on the anchor; in binary64 each corner
  coordinate is the double nearest to the exact one. The width need not be positive.
\<close>

theorem square_at_rotation_zero:
  assumes "ieee_like rt" and "fl rt (snd c) = snd c"
  shows "(let s = js_div rt width 111111; h = js_div rt s 2 in
            getRotatedCoordinates rt c s 0 =
              [[(js_add rt (fst c) (- h), js_add rt (snd c) (- h)),
                (js_add rt (fst c) h, js_add rt (snd c) (- h)),
                (js_add rt (fst c) h, js_add rt (snd c) h),
                (js_add rt (fst c) (- h), js_add rt (snd c) h)]])"
  using ring_at_rotation_zero [OF assms] by (simp add: Let_def)

theorem square_at_rotation_zero_witness:
  "ieee_like exact_js \<and> fl exact_js 28 = 28
   \<and> getRotatedCoordinates exact_js (77, 28) (js_div exact_js 30 111111) 0
       = [[(77 - 15 / 111111, 28 - 15 / 111111), (77 + 15 / 111111, 28 - 15 / 111111),
           (77 + 15 / 111111, 28 + 15 / 111111), (77 - 15 / 111111, 28 + 15 / 111111)]]
   \<and> ieee_like double_js \<and> fl double_js lat_13_75 = lat_13_75
   \<and> getRotatedCoordinates double_js (lng_100_3, lat_13_75) (js_div double_js 50 111111) 0
       = [[(3528984604018213 / 35184372088832, 967554399459607 / 70368744177664),
           (1764500218500743 / 17592186044416, 967554399459607 / 70368744177664),
           (1764500218500743 / 17592186044416, 967586065426153 / 70368744177664),
           (3528984604018213 / 35184372088832, 967586065426153 / 70368744177664)]]"
proof -
  have e: "ieee_like exact_js" "fl exact_js (snd (77, 28)) = snd (77, 28)"
    by (simp_all add: ieee_like_exact)
  have d: "ieee_like double_js" "fl double_js (snd (lng_100_3, lat_13_75)) = snd (lng_100_3, lat_13_75)"
    by (simp_all add: ieee_like_double lat_double)
  have "getRotatedCoordinates exact_js (77, 28) (js_div exact_js 30 111111) 0
       = [[(77 - 15 / 111111, 28 - 15 / 111111), (77 + 15 / 111111, 28 - 15 / 111111),
           (77 + 15 / 111111, 28 + 15 / 111111), (77 - 15 / 111111, 28 + 15 / 111111)]]"
    using square_at_rotation_zero [OF e, of 30]
    by (simp add: Let_def js_div_def js_add_def)
  moreover have "getRotatedCoordinates double_js (lng_100_3, lat_13_75) (js_div double_js 50 111111) 0
       = [[(3528984604018213 / 35184372088832, 967554399459607 / 70368744177664),
           (1764500218500743 / 17592186044416, 967554399459607 / 70368744177664),
           (1764500218500743 / 17592186044416, 967586065426153 / 70368744177664),
           (3528984604018213 / 35184372088832, 967586065426153 / 70368744177664)]]"
    using square_at_rotation_zero [OF d, of 50]
    by (simp add: Let_def double_chain)
  ultimately show ?thesis using e d by simp
qed

text \<open>
  Claim C8, as stated, fails in the arithmetic the code runs on: for the park at
  longitude 100.3 the mean of the four corners is one unit in the last place west of
  the anchor.
\<close>

theorem label_off_the_anchor:
  "label_of (fst (handleAddBuilding double_js (Aqi_data (Some 40)) park_at_100_3)) 1
     = Some (Label_point (Some (3528992520509849 / 35184372088832, lat_13_75)) 1 ''Park'')
   \<and> label_of (fst (handleAddBuilding double_js (Aqi_data (Some 40)) park_at_100_3)) 1
     \<noteq> Some (Label_point (Some (lng_100_3, lat_13_75)) 1 ''Park'')"
proof -
  have "label_of (fst (handleAddBuilding double_js (Aqi_data (Some 40)) park_at_100_3)) 1
     = Some (Label_point (Some (3528992520509849 / 35184372088832, lat_13_75)) 1 ''Park'')"
    by (simp add: handleAddBuilding_def handleAddBuilding_from_def park_at_100_3_def
          initial_building_editor_def park_above_ceiling Let_def ring_double displayBuilding_def ring_center_four double_chain
          label_of_def addSource_def addLayer_def clear_id_def empty_surface_def newId_def
          split: prod.splits)
  moreover have "(3528992520509849 / 35184372088832 :: real) \<noteq> lng_100_3"
    by (simp add: lng_100_3_def)
  ultimately show ?thesis by simp
qed

text \<open>
  The distance of a rounded result from the exact one is at most half a unit in the last
  place, which for magnitudes below 1024 is at most \<open>2^-44\<close>.
\<close>

lemma round_even_error: "\<bar>of_int (round_even y) - y\<bar> \<le> 1 / 2"
proof -
  have "of_int \<lfloor>y\<rfloor> \<le> y" "y < of_int \<lfloor>y\<rfloor> + 1" by linarith+
  then show ?thesis
    unfolding round_even_def Let_def by (auto simp: abs_le_iff)
qed

lemma round_double_error:
  "\<bar>round_double x - x\<bar> \<le> 2 powr of_int (ulp_exponent x) / 2"
proof (cases "x = 0")
  case True
  then show ?thesis by simp
next
  case False
  define p :: real where "p = 2 powr of_int (ulp_exponent x)"
  have p: "0 < p" by (simp add: p_def)
  have "round_double x - x = (of_int (round_even (x / p)) - x / p) * p"
    using False p by (simp add: round_double_def p_def algebra_simps)
  then have "\<bar>round_double x - x\<bar> = \<bar>of_int (round_even (x / p)) - x / p\<bar> * p"
    using p by (simp add: abs_mult)
  also have "\<dots> \<le> 1 / 2 * p"
    using round_even_error [of "x / p"] p by (intro mult_right_mono) simp_all
  finally show ?thesis by (simp add: p_def)
qed

lemma ulp_exponent_small:
  assumes "\<bar>x\<bar> < 1024" and "x \<noteq> 0"
  shows "ulp_exponent x \<le> - 43"
proof -
  have "2 powr of_int \<lfloor>log 2 \<bar>x\<bar>\<rfloor> \<le> \<bar>x\<bar>"
    using floor_log2_bounds(1) [OF assms(2)] .
  also have "\<bar>x\<bar> < 2 powr of_int 10"
    using assms(1) by (simp add: two_powr_nat)
  finally have "(2::real) powr of_int \<lfloor>log 2 \<bar>x\<bar>\<rfloor> < 2 powr of_int 10" .
  then have "real_of_int \<lfloor>log 2 \<bar>x\<bar>\<rfloor> < real_of_int 10"
    by (rule powr_less_cancel) simp
  then have "\<lfloor>log 2 \<bar>x\<bar>\<rfloor> < 10"
    by (simp only: of_int_less_iff)
  then show ?thesis by (simp add: ulp_exponent_def)
qed

lemma round_double_accurate:
  assumes "\<bar>x\<bar> < 1024"
  shows "\<bar>round_double x - x\<bar> \<le> 1 / 2 ^ 44"
proof (cases "x = 0")
  case True
  then show ?thesis by simp
next
  case False
  have "(2::real) powr of_int (ulp_exponent x) \<le> 2 powr of_int (- 43)"
    using ulp_exponent_small [OF assms False] by simp
  also have "\<dots> = 1 / 2 ^ 43"
    using powr_int [of "2::real" "- 43"] by simp
  finally show ?thesis
    using round_double_error [of x] by simp
qed

text \<open>
  The mean of four numbers computed as the source does, by four additions from 0 and a
  division by 4, when each operation is off by at most \<open>\<delta>\<close>: the four summands carry
  one \<open>\<delta>\<close> between them, the four additions another and the division the third.
\<close>

lemma mean_of_four_near:
  fixes f :: "real \<Rightarrow> real"
  assumes acc: "\<And>x. \<bar>x\<bar> < 1024 \<Longrightarrow> \<bar>f x - x\<bar> \<le> \<delta>" and d: "\<delta> \<le> 1"
      and p: "\<bar>p - p0\<bar> \<le> \<delta>" and q: "\<bar>q - q0\<bar> \<le> \<delta>"
      and r: "\<bar>r - r0\<bar> \<le> \<delta>" and s: "\<bar>s - s0\<bar> \<le> \<delta>"
      and b: "\<bar>p0\<bar> \<le> 182" "\<bar>q0\<bar> \<le> 182" "\<bar>r0\<bar> \<le> 182" "\<bar>s0\<bar> \<le> 182"
      and m: "p0 + q0 + r0 + s0 = 4 * c"
  shows "\<bar>f (f (f (f (f (0 + p) + q) + r) + s) / 4) - c\<bar> \<le> 3 * \<delta>"
proof -
  define g0 where "g0 = f (0 + p)"
  define g1 where "g1 = f (g0 + q)"
  define g2 where "g2 = f (g1 + r)"
  define g3 where "g3 = f (g2 + s)"
  have bp: "\<bar>p\<bar> \<le> 183" "\<bar>q\<bar> \<le> 183" "\<bar>r\<bar> \<le> 183" "\<bar>s\<bar> \<le> 183"
    using p q r s b d by linarith+
  have e0: "\<bar>g0 - p\<bar> \<le> \<delta>"
    using acc [of "0 + p"] bp(1) by (simp add: g0_def)
  then have b0: "\<bar>g0\<bar> \<le> 184" using bp(1) d by linarith
  have e1: "\<bar>g1 - (g0 + q)\<bar> \<le> \<delta>"
    unfolding g1_def using b0 bp(2) by (intro acc) linarith
  then have b1: "\<bar>g1\<bar> \<le> 368" using b0 bp(2) d by linarith
  have e2: "\<bar>g2 - (g1 + r)\<bar> \<le> \<delta>"
    unfolding g2_def using b1 bp(3) by (intro acc) linarith
  then have b2: "\<bar>g2\<bar> \<le> 552" using b1 bp(3) d by linarith
  have e3: "\<bar>g3 - (g2 + s)\<bar> \<le> \<delta>"
    unfolding g3_def using b2 bp(4) by (intro acc) linarith
  then have b3: "\<bar>g3\<bar> \<le> 736" using b2 bp(4) d by linarith
  have e4: "\<bar>f (g3 / 4) - g3 / 4\<bar> \<le> \<delta>"
    using b3 by (intro acc) linarith
  have "\<bar>g3 - 4 * c\<bar> \<le> 8 * \<delta>"
    using e0 e1 e2 e3 p q r s m by linarith
  then have "\<bar>g3 / 4 - c\<bar> \<le> 2 * \<delta>" by linarith
  then have "\<bar>f (g3 / 4) - c\<bar> \<le> 3 * \<delta>" using e4 by linarith
  then show ?thesis by (simp add: g0_def g1_def g2_def g3_def)
qed

text \<open>
  Claim C8, amended. For a building added with rotation 0 at an anchor within 180 degrees
  of the origin and with a width of at most 111111 metres, each coordinate of the label
  position is within three rounding errors of the anchor's: within \<open>3 * 2^-44\<close> degrees
  in binary64, and the anchor itself when the arithmetic is exact.
\<close>

theorem label_near_the_anchor:
  assumes il: "ieee_like rt"
      and acc: "\<forall>x. \<bar>x\<bar> < 1024 \<longrightarrow> \<bar>fl rt x - x\<bar> \<le> \<delta>" and d: "\<delta> \<le> 1"
      and loc: "clickedLocation w = Some loc" and rep: "fl rt (snd loc) = snd loc"
      and range: "\<bar>fst loc\<bar> \<le> 180" "\<bar>snd loc\<bar> \<le> 180"
      and width: "\<bar>buildingWidth w\<bar> \<le> 111111"
      and ok: "buildingType w \<noteq> []" "aqi \<le> maxAqiAllowed (buildingType w)"
      and rot: "buildingRotation w = 0" and mp: "map_b w = Some m"
  shows "\<exists>x y. label_of (fst (handleAddBuilding rt (Aqi_data (Some aqi)) w)) (newId rt (buildings w))
                  = Some (Label_point (Some (x, y)) (newId rt (buildings w)) (buildingType w))
               \<and> \<bar>x - fst loc\<bar> \<le> 3 * \<delta> \<and> \<bar>y - snd loc\<bar> \<le> 3 * \<delta>"
proof -
  let ?f = "fl rt"
  have a: "\<And>x. \<bar>x\<bar> < 1024 \<Longrightarrow> \<bar>?f x - x\<bar> \<le> \<delta>" using acc by blast
  define s where "s = js_div rt (buildingWidth w) 111111"
  define h where "h = js_div rt s 2"
  have "\<bar>buildingWidth w / 111111\<bar> \<le> 1" using width by simp
  then have "\<bar>s - buildingWidth w / 111111\<bar> \<le> \<delta>" and bs0: "\<bar>buildingWidth w / 111111\<bar> \<le> 1"
    unfolding s_def js_div_def by (auto intro!: a)
  then have bs: "\<bar>s\<bar> \<le> 2" using d by linarith
  have "\<bar>h - s / 2\<bar> \<le> \<delta>"
    unfolding h_def js_div_def using bs by (intro a) simp
  then have bh: "\<bar>h\<bar> \<le> 2" using bs d by linarith
  note ring = ring_at_rotation_zero [OF il rep, of s, folded h_def]
  define W where "W = js_add rt (fst loc) (- h)"
  define E where "E = js_add rt (fst loc) h"
  define S where "S = js_add rt (snd loc) (- h)"
  define N where "N = js_add rt (snd loc) h"
  have eW: "\<bar>W - (fst loc - h)\<bar> \<le> \<delta>" and eE: "\<bar>E - (fst loc + h)\<bar> \<le> \<delta>"
    and eS: "\<bar>S - (snd loc - h)\<bar> \<le> \<delta>" and eN: "\<bar>N - (snd loc + h)\<bar> \<le> \<delta>"
    unfolding W_def E_def S_def N_def js_add_def
    using a [of "fst loc + - h"] a [of "fst loc + h"] a [of "snd loc + - h"] a [of "snd loc + h"]
      range bh by simp_all
  have bx: "\<bar>fst loc - h\<bar> \<le> 182" "\<bar>fst loc + h\<bar> \<le> 182"
    and bly: "\<bar>snd loc - h\<bar> \<le> 182" "\<bar>snd loc + h\<bar> \<le> 182"
    using range bh by linarith+
  define x where "x = ?f (?f (?f (?f (?f (0 + W) + E) + E) + W) / 4)"
  define y where "y = ?f (?f (?f (?f (?f (0 + S) + S) + N) + N) / 4)"
  have nx: "\<bar>x - fst loc\<bar> \<le> 3 * \<delta>"
    unfolding x_def
    by (rule mean_of_four_near [OF a d eW eE eE eW bx(1) bx(2) bx(2) bx(1)]) simp_all
  have ny: "\<bar>y - snd loc\<bar> \<le> 3 * \<delta>"
    unfolding y_def
    by (rule mean_of_four_near [OF a d eS eS eN eN bly(1) bly(1) bly(2) bly(2)]) simp_all
  have c: "ring_center rt [(W, S), (E, S), (E, N), (W, N)] = Some (x, y)"
    by (simp add: ring_center_four js_add_def js_div_def x_def y_def)
  have "label_of (fst (handleAddBuilding rt (Aqi_data (Some aqi)) w)) (newId rt (buildings w))
          = Some (Label_point (Some (x, y)) (newId rt (buildings w)) (buildingType w))"
    using loc ok rot mp c
    by (simp add: handleAddBuilding_def handleAddBuilding_from_def above_ceiling_def Let_def
          displayBuilding_def label_of_def
          addSource_def addLayer_def ring [folded W_def E_def S_def N_def]
          flip: s_def split: prod.splits)
  then show ?thesis using nx ny by blast
qed

theorem label_near_the_anchor_witness:
  "ieee_like double_js
   \<and> clickedLocation park_at_100_3 = Some (lng_100_3, lat_13_75)
   \<and> fl double_js lat_13_75 = lat_13_75
   \<and> buildingWidth park_at_100_3 = 50 \<and> buildingRotation park_at_100_3 = 0
   \<and> (40::real) \<le> maxAqiAllowed (buildingType park_at_100_3)
   \<and> map_b park_at_100_3 = Some empty_surface
   \<and> (\<exists>x y. label_of (fst (handleAddBuilding double_js (Aqi_data (Some 40)) park_at_100_3)) 1
                  = Some (Label_point (Some (x, y)) 1 ''Park'')
              \<and> \<bar>x - lng_100_3\<bar> \<le> 3 / 2 ^ 44 \<and> \<bar>y - lat_13_75\<bar> \<le> 3 / 2 ^ 44)"
proof -
  have acc: "\<forall>x. \<bar>x\<bar> < 1024 \<longrightarrow> \<bar>fl double_js x - x\<bar> \<le> 1 / 2 ^ 44"
    unfolding fl_double using round_double_accurate by blast
  have h: "clickedLocation park_at_100_3 = Some (lng_100_3, lat_13_75)"
    "fl double_js (snd (lng_100_3, lat_13_75)) = snd (lng_100_3, lat_13_75)"
    "\<bar>fst (lng_100_3, lat_13_75)\<bar> \<le> 180" "\<bar>snd (lng_100_3, lat_13_75)\<bar> \<le> 180"
    "\<bar>buildingWidth park_at_100_3\<bar> \<le> 111111"
    "buildingType park_at_100_3 \<noteq> []"
    "(40::real) \<le> maxAqiAllowed (buildingType park_at_100_3)"
    "buildingRotation park_at_100_3 = 0" "map_b park_at_100_3 = Some empty_surface"
    by (simp_all add: park_at_100_3_def initial_building_editor_def park_ceiling lat_double)
       (simp_all add: lng_100_3_def lat_13_75_def)
  have v: "buildings park_at_100_3 = []" "buildingType park_at_100_3 = ''Park''"
    "buildingWidth park_at_100_3 = 50"
    by (simp_all add: park_at_100_3_def initial_building_editor_def)
  have "(1::real) / 2 ^ 44 \<le> 1" by simp
  from label_near_the_anchor [OF ieee_like_double acc this h]
  show ?thesis
    using h(1,7,8,9) v by (simp add: newId_def ieee_like_double lat_double)
qed

text \<open>With exact arithmetic the label is at the anchor, whatever the magnitudes.\<close>

lemma label_at_the_anchor_exact:
  assumes "fl rt = (\<lambda>x. x)" and "Math_cos rt 0 = 1" and "Math_sin rt 0 = 0"
      and "clickedLocation w = Some loc" and "buildingType w \<noteq> []"
      and "aqi \<le> maxAqiAllowed (buildingType w)"
      and "buildingRotation w = 0" and "map_b w = Some m"
  shows "label_of (fst (handleAddBuilding rt (Aqi_data (Some aqi)) w)) (newId rt (buildings w))
           = Some (Label_point (Some loc) (newId rt (buildings w)) (buildingType w))"
proof -
  have il: "ieee_like rt"
    using assms(1-3) by (simp add: ieee_like_def rounding_def)
  have r: "fl rt (snd loc) = snd loc" using assms(1) by simp
  note ring = ring_at_rotation_zero [OF il r, of "js_div rt (buildingWidth w) 111111"]
  have c: "ring_center rt (hd (getRotatedCoordinates rt loc (js_div rt (buildingWidth w) 111111) 0))
             = Some loc"
    unfolding ring by (simp add: ring_center_four js_add_def js_div_def assms(1))
  show ?thesis
    using assms(4-8) c
    by (simp add: handleAddBuilding_def handleAddBuilding_from_def above_ceiling_def Let_def
          displayBuilding_def ring label_of_def
          addSource_def addLayer_def split: prod.splits)
qed

section \<open>Identifiers, and the frame of an update\<close>

subsection \<open>The id of a new building\<close>

lemma Math_max_eq: "Math_max (x # xs) = Some (Max (set (x # xs)))"
  using Max.set_eq_fold [of x xs] by simp

lemma newId_eq:
  "newId rt bs = (if bs = [] then 1 else js_add rt (Max (set (map id_b bs))) 1)"
  by (cases bs) (simp_all add: newId_def Math_max_eq del: Math_max.simps)

text \<open>
  Binary64 keeps the integers up to \<open>2^53\<close>, and rounds \<open>2^53 + 1\<close>, a tie, to the even
  neighbour \<open>2^53\<close>.
\<close>

lemma round_double_of_int:
  assumes "\<bar>k\<bar> \<le> 2 ^ 53"
  shows "round_double (of_int k) = of_int k"
proof (cases "k = 0")
  case True
  then show ?thesis by simp
next
  case False
  define r :: real where "r = of_int k"
  define a where "a = \<lfloor>log 2 \<bar>r\<bar>\<rfloor>"
  have r0: "r \<noteq> 0" using False by (simp add: r_def)
  have lo: "2 powr of_int a \<le> \<bar>r\<bar>" and hi: "\<bar>r\<bar> < 2 powr of_int (a + 1)"
    using floor_log2_bounds [OF r0] by (simp_all add: a_def)
  have "1 \<le> \<bar>k\<bar>" using False by simp
  then have r1: "1 \<le> \<bar>r\<bar>" unfolding r_def by (metis of_int_abs of_int_1_le_iff)
  have r53: "\<bar>r\<bar> \<le> 2 powr 53"
  proof -
    have "\<bar>r\<bar> = of_int \<bar>k\<bar>" by (simp add: r_def)
    also have "\<dots> \<le> of_int (2 ^ 53)" using assms by (subst of_int_le_iff)
    finally show ?thesis by simp
  qed
  have a0: "0 \<le> a"
  proof (rule ccontr)
    assume "\<not> 0 \<le> a"
    then have "of_int (a + 1) \<le> (0::real)" by simp
    then have "2 powr of_int (a + 1) \<le> (2::real) powr 0" by (subst powr_le_cancel_iff) simp_all
    then show False using hi r1 by simp
  qed
  have a53: "a \<le> 53"
  proof (rule ccontr)
    assume "\<not> a \<le> 53"
    then have "(54::real) \<le> of_int a" by simp
    then have "(2::real) powr 54 \<le> 2 powr of_int a" by (rule powr_mono) simp
    then show False using lo r53 by simp
  qed
  have e: "ulp_exponent r = a - 52"
    using a0 by (simp add: ulp_exponent_def a_def)
  have "\<exists>j. r = of_int j * 2 powr of_int (ulp_exponent r)"
  proof (cases "a \<le> 52")
    case True
    define n where "n = nat (52 - a)"
    have an: "a - 52 = - int n" using True by (simp add: n_def)
    have "(2::real) powr of_int (- int n) = 1 / 2 ^ n"
      by (simp add: powr_minus_divide powr_realpow)
    then have "(2::real) powr of_int (a - 52) = 1 / 2 ^ n"
      unfolding an .
    then have "of_int k = of_int (k * 2 ^ n) * (2::real) powr of_int (a - 52)"
      by simp
    then have "r = of_int (k * 2 ^ n) * 2 powr of_int (ulp_exponent r)"
      unfolding e r_def [symmetric] .
    then show ?thesis by blast
  next
    case False
    then have a: "a = 53" using a53 by simp
    then have "\<bar>r\<bar> = 2 ^ 53" using lo r53 by simp
    then have "\<bar>k\<bar> = 2 ^ 53" unfolding r_def
      by (metis of_int_abs of_int_eq_numeral_power_cancel_iff)
    then have "even \<bar>k\<bar>" by simp
    then have "even k" by simp
    then have "k = 2 * (k div 2)" by simp
    then have "r = of_int (k div 2) * 2"
      unfolding r_def by (metis mult.commute of_int_mult of_int_numeral)
    then have "r = of_int (k div 2) * 2 powr of_int (a - 52)"
      by (simp add: a)
    then have "r = of_int (k div 2) * 2 powr of_int (ulp_exponent r)"
      unfolding e .
    then show ?thesis by blast
  qed
  then obtain j where "r = of_int j * 2 powr of_int (ulp_exponent r)" ..
  from round_double_of_multiple [OF this] show ?thesis by (simp add: r_def)
qed

lemma integers_exact_double: "integers_exact double_js"
  by (simp add: integers_exact_def round_double_of_int)

lemma integers_exact_exact: "integers_exact exact_js"
  by (simp add: integers_exact_def)

lemma round_even_half_even: "even f \<Longrightarrow> round_even (of_int f + 1 / 2) = f"
  by (simp add: round_even_def)

lemma round_double_above_2_53: "round_double (2 ^ 53 + 1) = 2 ^ 53"
proof -
  define x :: real where "x = 2 ^ 53 + 1"
  have "\<lfloor>log 2 \<bar>x\<bar>\<rfloor> = 53"
    by (rule floor_log2_eq) (simp_all add: powr_int x_def)
  then have e: "ulp_exponent x = 1"
    by (simp add: ulp_exponent_def)
  have "x / 2 = of_int (2 ^ 52) + 1 / 2" by (simp add: x_def)
  then have "round_even (x / 2) = 2 ^ 52"
    using round_even_half_even [of "2 ^ 52"] by simp
  moreover have "x \<noteq> 0" by (simp add: x_def)
  ultimately have "round_double x = 2 ^ 53"
    by (simp add: round_double_def e)
  then show ?thesis by (simp add: x_def)
qed


text \<open>
  So the sum \<open>Math.max(...) + 1\<close> is the successor of the largest id as long as the ids
  are integers below \<open>2^53\<close>; at \<open>2^53\<close> it is \<open>2^53\<close> again.
\<close>

lemma newId_exact:
  assumes ie: "integers_exact rt"
      and ids: "list_all (\<lambda>b. id_b b \<in> \<int> \<and> \<bar>id_b b\<bar> < 2 ^ 53) bs"
  shows "newId rt bs = (if bs = [] then 1 else Max (set (map id_b bs)) + 1)"
proof (cases "bs = []")
  case True
  then show ?thesis by (simp add: newId_eq)
next
  case False
  define m where "m = Max (set (map id_b bs))"
  have "m \<in> set (map id_b bs)"
    unfolding m_def using False by (intro Max_in) simp_all
  then have "m \<in> \<int>" and b: "\<bar>m\<bar> < 2 ^ 53"
    using ids by (auto simp: list_all_iff)
  then obtain k :: int where k: "m = of_int k" by (auto elim: Ints_cases)
  have "\<bar>k\<bar> < 2 ^ 53"
  proof -
    have "(of_int \<bar>k\<bar> :: real) < of_int (2 ^ 53)" using b k by simp
    then show ?thesis by (subst (asm) of_int_less_iff)
  qed
  then have "\<bar>k + 1\<bar> \<le> 2 ^ 53" by simp
  then have "fl rt (of_int (k + 1)) = of_int (k + 1)"
    using ie unfolding integers_exact_def by blast
  then have "js_add rt m 1 = m + 1"
    by (simp add: js_add_def k)
  then show ?thesis using False by (simp add: newId_eq m_def)
qed

lemma below_successor_of_Max:
  fixes bs :: "building list"
  shows "list_all (\<lambda>b. id_b b < Max (set (map id_b bs)) + 1) bs"
proof -
  have le: "id_b c \<le> Max (set (map id_b bs))" if "c \<in> set bs" for c
    using that by (intro Max_ge) auto
  have "id_b c < Max (set (map id_b bs)) + 1" if "c \<in> set bs" for c
    using le [OF that] by linarith
  then show ?thesis by (simp add: list_all_iff)
qed

lemma handleAddBuilding_from_proceeds:
  assumes "clickedLocation snap \<noteq> None" and "buildingType snap \<noteq> []"
      and "lookup = Aqi_not_a_number
           \<or> lookup = Aqi_data (Some aqi) \<and> \<not> above_ceiling aqi (buildingType snap)"
  shows "buildings (fst (handleAddBuilding_from rt lookup snap w))
           = buildings w @
             [\<lparr>id_b = newId rt (buildings snap), location_b = the (clickedLocation snap),
               coordinates_b = getRotatedCoordinates rt (the (clickedLocation snap))
                                 (js_div rt (buildingWidth snap) 111111)
                                 (buildingRotation snap),
               width_b = buildingWidth snap, height_b = buildingHeight snap,
               color_b = buildingColor snap, rotation_b = buildingRotation snap,
               type_b = buildingType snap\<rparr>]"
  using assms by (auto simp: handleAddBuilding_from_def Let_def split: prod.splits)

lemma newId_repeats_at_2_53:
  assumes "id_b b = 2 ^ 53"
  shows "newId double_js [b] = id_b b"
  using assms round_double_above_2_53 by (simp add: newId_eq js_add_def)

text \<open>
  An add reads the catalog of the render in which the button was clicked and appends to
  the catalog at the time the answer arrives. When a second add is started before the
  first one has been answered, both compute their id from the same catalog: from the
  first render, two parks added this way both get the id 1.
\<close>

lemma run_append: "run rt (xs @ ys) s = run rt ys (run rt xs s)"
  by (simp add: run_def)

lemma overlapping_adds_catalog:
  "buildings (fst (run rt overlapping_adds first_render))
     = [\<lparr>id_b = 1, location_b = (77, 28),
         coordinates_b = getRotatedCoordinates rt (77, 28) (js_div rt 30 111111) 0,
         width_b = 30, height_b = 50, color_b = ''#ff0000'', rotation_b = 0,
         type_b = ''Park''\<rparr>,
        \<lparr>id_b = 1, location_b = (78, 29),
         coordinates_b = getRotatedCoordinates rt (78, 29) (js_div rt 30 111111) 0,
         width_b = 30, height_b = 50, color_b = ''#ff0000'', rotation_b = 0,
         type_b = ''Park''\<rparr>]"
  by (simp add: run_def overlapping_adds_def first_render_def initial_building_editor_def
        handleAddBuilding_from_proceeds [where lookup = "Aqi_data (Some 40)" and aqi = 40]
        park_above_ceiling newId_def)

text \<open>
  Claim C4, as stated, fails for routes: the id of a new route is the reading of the
  clock, not the successor of the largest id in the catalog.
\<close>

theorem route_id_is_the_clock:
  "id_r (last (routes (handleSaveRoute exact_js 1700000005000 ''2023-11-14T22:13:25.000Z''
                         drawing_main_st)))
     \<noteq> Max (set (map id_r (routes drawing_main_st))) + 1"
  by (simp add: handleSaveRoute_accepts drawing_main_st_def initial_local_editor_def)

text \<open>
  Claim C4, amended. Take an add of a building that goes through (a location and a type
  are chosen, and the index is not above the ceiling of the type or is not a number),
  during which the catalog has not changed (the catalog at the time of the answer is the
  one of the render in which the button was clicked), with the ids of the catalog
  integers below \<open>2^53\<close> in magnitude and a runtime that keeps the integers up to \<open>2^53\<close>,
  as binary64 does. Then the catalog gains one entry at its end, whose id is 1 in an
  empty catalog and the largest id plus 1 otherwise, which is above every id of the
  catalog. The new route of the variant backed by local storage gets the clock reading
  \<open>Date.now()\<close> as its id (the remote variant assigns no id).
\<close>

theorem local_ids:
  fixes wl :: local_editor
  assumes "clickedLocation snap \<noteq> None" and "buildingType snap \<noteq> []"
      and "lookup = Aqi_not_a_number
           \<or> lookup = Aqi_data (Some aqi) \<and> \<not> above_ceiling aqi (buildingType snap)"
      and "buildings w = buildings snap"
      and "integers_exact rt"
      and "list_all (\<lambda>b. id_b b \<in> \<int> \<and> \<bar>id_b b\<bar> < 2 ^ 53) (buildings snap)"
      and "routeName wl \<noteq> []" and "2 \<le> length (clickedPoints wl)"
  shows "(let bs' = buildings (fst (handleAddBuilding_from rt lookup snap w));
              nb = last bs' in
            bs' = buildings w @ [nb]
          \<and> id_b nb = (if buildings w = [] then 1 else Max (set (map id_b (buildings w))) + 1)
          \<and> list_all (\<lambda>b. id_b b < id_b nb) (buildings w))
       \<and> id_r (last (routes (handleSaveRoute rt now stamp wl))) = now"
proof -
  note app = handleAddBuilding_from_proceeds [OF assms(1-3), of rt w]
  note nid = newId_exact [OF assms(5,6)]
  have "list_all (\<lambda>b. id_b b < newId rt (buildings snap)) (buildings w)"
  proof (cases "buildings snap = []")
    case True
    then show ?thesis using assms(4) by simp
  next
    case False
    then show ?thesis
      using below_successor_of_Max [of "buildings snap"] assms(4) by (simp add: nid)
  qed
  then show ?thesis
    using assms(4,7,8) by (simp add: app Let_def nid handleSaveRoute_accepts)
qed

theorem local_ids_witness:
  "clickedLocation two_buildings = Some (77, 28) \<and> buildingType two_buildings = ''Park''
   \<and> \<not> above_ceiling 40 ''Park''
   \<and> map id_b (buildings two_buildings) = [3, 1]
   \<and> integers_exact double_js
   \<and> routeName drawing_main_st \<noteq> [] \<and> 2 \<le> length (clickedPoints drawing_main_st)
   \<and> map id_b (buildings (fst (handleAddBuilding_from double_js (Aqi_data (Some 40))
                  two_buildings (two_buildings\<lparr>clickedLocation := Some (78, 29)\<rparr>))))
       = [3, 1, 4]
   \<and> id_r (last (routes (handleSaveRoute double_js 1700000005000 ''2023-11-14T22:13:25.000Z''
                         drawing_main_st))) = 1700000005000"
proof -
  let ?w = "two_buildings\<lparr>clickedLocation := Some (78, 29)\<rparr>"
  have v: "clickedLocation two_buildings = Some (77, 28)" "buildingType two_buildings = ''Park''"
    "\<not> above_ceiling 40 ''Park''"
    "routeName drawing_main_st \<noteq> []" "2 \<le> length (clickedPoints drawing_main_st)"
    by (simp_all add: two_buildings_def park_editor_def initial_building_editor_def
          park_above_ceiling drawing_main_st_def initial_local_editor_def)
  have h: "clickedLocation two_buildings \<noteq> None" "buildingType two_buildings \<noteq> []"
    "Aqi_data (Some 40) = Aqi_not_a_number
     \<or> Aqi_data (Some 40) = Aqi_data (Some 40)
       \<and> \<not> above_ceiling 40 (buildingType two_buildings)"
    "buildings ?w = buildings two_buildings"
    "integers_exact double_js"
    "list_all (\<lambda>b. id_b b \<in> \<int> \<and> \<bar>id_b b\<bar> < 2 ^ 53) (buildings two_buildings)"
    using v by (simp_all add: integers_exact_double)
       (simp add: two_buildings_def office_3_def park_1_def)
  have ids: "map id_b (buildings two_buildings) = [3, 1]" "buildings two_buildings \<noteq> []"
    by (simp_all add: two_buildings_def office_3_def park_1_def)
  have b: "buildings ?w = [office_3, park_1]" by (simp add: two_buildings_def)
  define X where
    "X = buildings (fst (handleAddBuilding_from double_js (Aqi_data (Some 40)) two_buildings ?w))"
  note t = local_ids [OF h v(4,5), of 1700000005000 "''2023-11-14T22:13:25.000Z''",
                      unfolded Let_def, folded X_def]
  have 1: "X = buildings ?w @ [last X]" using t by blast
  have "id_b (last X)
          = (if buildings ?w = [] then 1 else Max (set (map id_b (buildings ?w))) + 1)"
    using t by blast
  then have 2: "id_b (last X) = 4"
    unfolding b by (simp add: office_3_def park_1_def)
  have 3: "id_r (last (routes (handleSaveRoute double_js 1700000005000
                  ''2023-11-14T22:13:25.000Z'' drawing_main_st))) = 1700000005000"
    using t by blast
  have "map id_b X = map id_b (buildings ?w @ [last X])"
    by (rule arg_cong [OF 1])
  then have 4: "map id_b X = [3, 1, 4]"
    unfolding b by (simp add: 2 office_3_def park_1_def)
  show ?thesis
    using v ids(1) 3 4 by (simp add: X_def integers_exact_double)
qed

text \<open>Such an add keeps the ids of the catalog distinct.\<close>

lemma add_keeps_ids_distinct:
  assumes "clickedLocation snap \<noteq> None" and "buildingType snap \<noteq> []"
      and "lookup = Aqi_not_a_number
           \<or> lookup = Aqi_data (Some aqi) \<and> \<not> above_ceiling aqi (buildingType snap)"
      and "buildings w = buildings snap"
      and "integers_exact rt"
      and "list_all (\<lambda>b. id_b b \<in> \<int> \<and> \<bar>id_b b\<bar> < 2 ^ 53) (buildings snap)"
      and "distinct (map id_b (buildings w))"
  shows "distinct (map id_b (buildings (fst (handleAddBuilding_from rt lookup snap w))))"
proof -
  have "id_b c < newId rt (buildings snap)" if "c \<in> set (buildings snap)" for c
  proof -
    have "buildings snap \<noteq> []" using that by auto
    then show ?thesis
      using below_successor_of_Max [of "buildings snap"] that
      by (simp add: newId_exact [OF assms(5,6)] list_all_iff)
  qed
  then have "newId rt (buildings snap) \<notin> id_b ` set (buildings snap)" by fastforce
  then show ?thesis
    using assms(4,7) by (simp add: handleAddBuilding_from_proceeds [OF assms(1-3)])
qed

subsection \<open>The frame of an update\<close>

text \<open>
  A click on an entry of the list selects that entry, and while the ids of the catalog
  are distinct it is the only entry with the selected id.
\<close>

lemma selected_entry_is_the_only_one:
  assumes "distinct (map id_b (buildings w))" and "i < length (buildings w)"
  shows "selectedBuilding (fst (handleSelectBuilding (buildings w ! i) w)) = Some (buildings w ! i)
       \<and> list_all (\<lambda>b. id_b b = id_b (buildings w ! i) \<longrightarrow> b = buildings w ! i)
           (buildings (fst (handleSelectBuilding (buildings w ! i) w)))"
proof -
  have inj: "inj_on id_b (set (buildings w))"
    using assms(1) by (simp add: distinct_map)
  have "b = buildings w ! i" if "b \<in> set (buildings w)" "id_b b = id_b (buildings w ! i)" for b
    using inj_onD [OF inj that(2) that(1)] assms(2) by simp
  then show ?thesis by (simp add: handleSelectBuilding_def list_all_iff)
qed

text \<open>
  Claim C9, as stated, fails when two entries share an id, which two overlapping adds
  bring about. From the first render, two parks are added at (77, 28) and (78, 29), the
  second add started before the first one was answered: both get the id 1. The first is
  then selected, its width set to 60 and Update clicked: the second entry, which is
  another entry of the catalog, is replaced as well and is now at (77, 28).
\<close>

theorem update_moves_other_entry:
  "map id_b (buildings (fst (run double_js overlapping_adds first_render))) = [1, 1]
   \<and> map location_b (buildings (fst (run double_js overlapping_adds first_render)))
       = [(77, 28), (78, 29)]
   \<and> selectedBuilding
        (fst (run double_js (overlapping_adds @ [Select 0, Set_width 60]) first_render))
       = Some (buildings (fst (run double_js overlapping_adds first_render)) ! 0)
   \<and> map location_b
        (buildings (fst (run double_js (overlapping_adds @ [Select 0, Set_width 60, Update])
                           first_render)))
       = [(77, 28), (77, 28)]"
proof -
  obtain w waiting where s: "run double_js overlapping_adds first_render = (w, waiting)"
    by (cases "run double_js overlapping_adds first_render")
  have b: "buildings w
     = [\<lparr>id_b = 1, location_b = (77, 28),
         coordinates_b = getRotatedCoordinates double_js (77, 28) (js_div double_js 30 111111) 0,
         width_b = 30, height_b = 50, color_b = ''#ff0000'', rotation_b = 0,
         type_b = ''Park''\<rparr>,
        \<lparr>id_b = 1, location_b = (78, 29),
         coordinates_b = getRotatedCoordinates double_js (78, 29) (js_div double_js 30 111111) 0,
         width_b = 30, height_b = 50, color_b = ''#ff0000'', rotation_b = 0,
         type_b = ''Park''\<rparr>]"
    using overlapping_adds_catalog [of double_js] s by simp
  show ?thesis
    unfolding run_append s
    by (simp add: run_def b handleSelectBuilding_def handleUpdateBuilding_buildings
          updatedBuilding_def Let_def)
qed

text \<open>
  Claim C9, amended. With a building selected, update keeps the length of the catalog
  and the id at every position, and leaves every entry whose id is not the selected
  building's unchanged. When every entry with the selected id is the selected building
  itself (the selected building is the only entry with its id), update changes that
  entry alone, and of it only the width, height, color, rotation, type and coordinates,
  the coordinates being recomputed from its own anchor; its id and its anchor, and the
  anchor of every entry, stay as they were.
\<close>

theorem update_frame:
  assumes "selectedBuilding w = Some sb"
  shows "(let bs = buildings w; bs' = buildings (handleUpdateBuilding rt w) in
            length bs' = length bs
          \<and> map id_b bs' = map id_b bs
          \<and> (\<forall>i < length bs. id_b (bs ! i) \<noteq> id_b sb \<longrightarrow> bs' ! i = bs ! i)
          \<and> (list_all (\<lambda>b. id_b b = id_b sb \<longrightarrow> b = sb) bs \<longrightarrow>
               bs' = map (\<lambda>b. if b = sb
                           then b\<lparr>width_b := buildingWidth w, height_b := buildingHeight w,
                                  color_b := buildingColor w, rotation_b := buildingRotation w,
                                  type_b := buildingType w,
                                  coordinates_b :=
                                    getRotatedCoordinates rt (location_b b)
                                      (js_div rt (buildingWidth w) 111111) (buildingRotation w)\<rparr>
                           else b) bs
             \<and> map location_b bs' = map location_b bs))"
proof -
  let ?u = "updatedBuilding rt sb w"
  have m: "buildings (handleUpdateBuilding rt w)
             = map (\<lambda>b. if id_b b = id_b sb then ?u else b) (buildings w)"
    using assms by (simp add: handleUpdateBuilding_buildings)
  have u: "id_b ?u = id_b sb" "location_b ?u = location_b sb"
    by (simp_all add: updatedBuilding_def Let_def)
  have ids: "map id_b (buildings (handleUpdateBuilding rt w)) = map id_b (buildings w)"
    unfolding m by (simp add: u)
  have fr: "\<forall>i < length (buildings w).
              id_b (buildings w ! i) \<noteq> id_b sb
              \<longrightarrow> buildings (handleUpdateBuilding rt w) ! i = buildings w ! i"
    unfolding m by simp
  have un: "buildings (handleUpdateBuilding rt w)
              = map (\<lambda>b. if b = sb
                           then b\<lparr>width_b := buildingWidth w, height_b := buildingHeight w,
                                  color_b := buildingColor w, rotation_b := buildingRotation w,
                                  type_b := buildingType w,
                                  coordinates_b :=
                                    getRotatedCoordinates rt (location_b b)
                                      (js_div rt (buildingWidth w) 111111) (buildingRotation w)\<rparr>
                           else b) (buildings w)"
      and lo: "map location_b (buildings (handleUpdateBuilding rt w))
                 = map location_b (buildings w)"
    if "list_all (\<lambda>b. id_b b = id_b sb \<longrightarrow> b = sb) (buildings w)"
  proof -
    have e: "id_b b = id_b sb \<longleftrightarrow> b = sb" if "b \<in> set (buildings w)" for b
      using that \<open>list_all _ (buildings w)\<close> by (auto simp: list_all_iff)
    show "buildings (handleUpdateBuilding rt w)
              = map (\<lambda>b. if b = sb
                           then b\<lparr>width_b := buildingWidth w, height_b := buildingHeight w,
                                  color_b := buildingColor w, rotation_b := buildingRotation w,
                                  type_b := buildingType w,
                                  coordinates_b :=
                                    getRotatedCoordinates rt (location_b b)
                                      (js_div rt (buildingWidth w) 111111) (buildingRotation w)\<rparr>
                           else b) (buildings w)"
      unfolding m by (rule map_cong) (simp_all add: e updatedBuilding_def Let_def)
    show "map location_b (buildings (handleUpdateBuilding rt w)) = map location_b (buildings w)"
      unfolding m map_map by (rule map_cong) (auto simp: e u)
  qed
  show ?thesis
    unfolding Let_def using ids fr un lo by (simp add: m)
qed

theorem update_frame_witness:
  "selectedBuilding (office_selected\<lparr>buildingWidth := 60\<rparr>) = Some office_3
   \<and> buildings (office_selected\<lparr>buildingWidth := 60\<rparr>) = [office_3, park_1]
   \<and> id_b park_1 \<noteq> id_b office_3
   \<and> buildings (handleUpdateBuilding double_js (office_selected\<lparr>buildingWidth := 60\<rparr>))
       = [office_3\<lparr>width_b := 60,
                   coordinates_b :=
                     getRotatedCoordinates double_js (77, 28) (js_div double_js 60 111111) 0\<rparr>,
          park_1]"
proof -
  let ?w = "office_selected\<lparr>buildingWidth := 60\<rparr>"
  have s: "selectedBuilding ?w = Some office_3"
    and b: "buildings ?w = [office_3, park_1]"
    by (simp_all add: office_selected_def handleSelectBuilding_def two_buildings_def)
  have f: "buildingWidth ?w = 60" "buildingHeight ?w = 50" "buildingColor ?w = ''#ff0000''"
    "buildingRotation ?w = 0" "buildingType ?w = ''Office Building''"
    by (simp_all add: office_selected_def handleSelectBuilding_def office_3_def)
  have n: "id_b park_1 \<noteq> id_b office_3" "park_1 \<noteq> office_3"
    by (simp_all add: office_3_def park_1_def)
  have a: "list_all (\<lambda>b. id_b b = id_b office_3 \<longrightarrow> b = office_3) (buildings ?w)"
    unfolding b using n by simp
  define B where "B = buildings (handleUpdateBuilding double_js ?w)"
  note t = update_frame [OF s, of double_js, unfolded Let_def, folded B_def]
  have "B = map (\<lambda>b. if b = office_3
                           then b\<lparr>width_b := buildingWidth ?w, height_b := buildingHeight ?w,
                                  color_b := buildingColor ?w, rotation_b := buildingRotation ?w,
                                  type_b := buildingType ?w,
                                  coordinates_b :=
                                    getRotatedCoordinates double_js (location_b b)
                                      (js_div double_js (buildingWidth ?w) 111111)
                                      (buildingRotation ?w)\<rparr>
                           else b) (buildings ?w)"
    using t a by blast
  then have "B = [office_3\<lparr>width_b := 60,
                   coordinates_b :=
                     getRotatedCoordinates double_js (77, 28) (js_div double_js 60 111111) 0\<rparr>,
          park_1]"
    unfolding b f using n(2) by (simp add: office_3_def)
  then show ?thesis
    using s b n(1) by (simp add: B_def)
qed

end
